theory Spec2Isabelle
  imports Complex_Main "HOL-Library.Char_ord" "HOL-Library.List_Lexorder"
begin

section \<open>Data model\<close>

subsection \<open>JSON documents\<close>

text \<open>
  A Python \<^verbatim>\<open>str\<close> is the list of the bytes of its UTF-8 encoding. An ASCII character is
  one byte that occurs nowhere else in the encoding, so looking for \<^verbatim>\<open>/\<close> and \<^verbatim>\<open>.\<close> and
  replacing a space or a hyphen do to the bytes what Python does to the characters, and
  the order of the byte lists is the order of the strings.

  A document as \<^verbatim>\<open>json.load\<close> returns it. A Python \<^verbatim>\<open>dict\<close> is kept as the list of its
  items in insertion order, so that \<^verbatim>\<open>o.values()\<close> is \<open>map snd\<close>; the loader never
  produces two items with one key.
\<close>

datatype json =
    JNull
  | JBool bool
  | JInt int
  | JFloat real
  | JStr string
  | JList "json list"
  | JDict "(string \<times> json) list"

definition dict_values :: "(string \<times> json) list \<Rightarrow> json list" where
  "dict_values kvs = map snd kvs"

subsection \<open>Exceptions and responses\<close>

text \<open>
  A Python exception is its class name and the text \<^verbatim>\<open>str(e)\<close> gives.
  \<^verbatim>\<open>HTTPException\<close> is what a handler raises to the serving layer.
\<close>

datatype exn = Exn (exn_class: string) (exn_str: string)

datatype http_exception = HTTPException (status_code: int) (detail: string)

text \<open>The \<^verbatim>\<open>"pagination"\<close> dictionary of every paged response.\<close>

record pagination =
  page :: int
  page_size :: int
  total :: int
  has_next :: bool

text \<open>A value in a result row of the query engine; \<open>Null\<close> is Python's \<^verbatim>\<open>None\<close>.
  \<open>OtherCell\<close> stands for any other engine value (float, date, decimal, ...) and
  carries the text \<^verbatim>\<open>str\<close> gives for it.\<close>

datatype cell = Null | IntCell int | StrCell string | OtherCell string

record column_info =
  column_name :: string
  data_type :: string
  example_value :: string

record dir_entry =
  entry_name :: string
  entry_type :: string
  entry_path :: string

text \<open>
  The dictionaries the handlers return, one constructor per shape:
  the JSON page (\<^verbatim>\<open>data, count, pagination\<close>), the table page
  (\<^verbatim>\<open>data, columns, count, pagination\<close>), the schema page
  (\<^verbatim>\<open>columns, count, pagination\<close>), the directory listing and the error body.
\<close>

datatype response =
    JsonPage (data: json) (count: int) (pagination: pagination)
  | TablePage (table_data: "(string \<rightharpoonup> cell) list") (table_columns: "string list")
      (count: int) (pagination: pagination)
  | SchemaPage (columns: "column_info list") (count: int) (pagination: pagination)
  | DirListing (directory: string) (contents: "dir_entry list")
  | ErrorBody (error: string)
  | HealthBody (status: string) (version: string)
  | RootBody (message: string) (version: string) (root_data_path: string)
      (endpoints: "string list")

subsection \<open>Python list slicing\<close>

text \<open>
  \<^verbatim>\<open>xs[start:stop]\<close> for integers of either sign: a negative bound counts from the
  end, and both bounds are clamped to the list.
\<close>

definition slice_index :: "int \<Rightarrow> int \<Rightarrow> int" where
  "slice_index n i = (if i < 0 then max 0 (i + n) else min i n)"

definition py_slice :: "'a list \<Rightarrow> int \<Rightarrow> int \<Rightarrow> 'a list" where
  "py_slice xs start stop =
     (let n = int (length xs);
          lo = slice_index n start;
          hi = slice_index n stop
      in take (nat (hi - lo)) (drop (nat lo) xs))"

section \<open>Counting the items of a JSON document\<close>

fun is_collection :: "json \<Rightarrow> bool" where
  "is_collection (JDict _) = True"
| "is_collection (JList _) = True"
| "is_collection _ = False"

text \<open>
  \<^verbatim>\<open>sum\<close> over a generator of counts: the first count that raises ends the sum.
  \<open>None\<close> is a raised \<^verbatim>\<open>RecursionError\<close>.
\<close>

fun sum_counts :: "int option list \<Rightarrow> int option" where
  "sum_counts [] = Some 0"
| "sum_counts (None # rest) = None"
| "sum_counts (Some n # rest) =
     (case sum_counts rest of None \<Rightarrow> None | Some s \<Rightarrow> Some (n + s))"

text \<open>
  The inner function \<^verbatim>\<open>count_nested(o, depth=0)\<close> of \<^verbatim>\<open>_count_json_items\<close>. It passes
  \<open>depth\<close> on and never reads it. \<open>frames\<close> is the number of frames the interpreter can
  still enter before it raises \<^verbatim>\<open>RecursionError\<close>: a call of \<^verbatim>\<open>count_nested\<close> takes one, and
  the generator expression that \<^verbatim>\<open>sum\<close> runs takes another, also when the collection is
  empty.
\<close>

fun count_nested :: "nat \<Rightarrow> json \<Rightarrow> int \<Rightarrow> int option" where
  "count_nested 0 obj depth = None"
| "count_nested (Suc 0) obj depth = (if is_collection obj then None else Some 1)"
| "count_nested (Suc (Suc frames)) (JDict kvs) depth =
     sum_counts (map (\<lambda>v. count_nested frames v (depth + 1)) (map snd kvs))"
| "count_nested (Suc (Suc frames)) (JList xs) depth =
     (case sum_counts (map (\<lambda>item. count_nested frames item (depth + 1)) xs) of
        None \<Rightarrow> None
      | Some s \<Rightarrow> Some (int (length xs) + s))"
| "count_nested (Suc (Suc frames)) obj depth = Some 1"

text \<open>The loop \<^verbatim>\<open>for v in obj.values(): if isinstance(v, (dict, list)): max_nested = max(...)\<close>.\<close>

fun max_nested_loop :: "nat \<Rightarrow> int \<Rightarrow> json list \<Rightarrow> int option" where
  "max_nested_loop frames max_nested [] = Some max_nested"
| "max_nested_loop frames max_nested (v # vs) =
     (if is_collection v then
        (case count_nested frames v 0 of
           None \<Rightarrow> None
         | Some c \<Rightarrow> max_nested_loop frames (max max_nested c) vs)
      else max_nested_loop frames max_nested vs)"

text \<open>\<^verbatim>\<open>_count_json_items\<close>, called with \<open>frames\<close> frames left for \<^verbatim>\<open>count_nested\<close>.\<close>

definition count_json_items :: "nat \<Rightarrow> json \<Rightarrow> (int \<times> int) option" where
  "count_json_items frames obj =
     (case count_nested frames obj 0 of
        None \<Rightarrow> None
      | Some total_count \<Rightarrow>
          (case obj of
             JDict kvs \<Rightarrow>
               (case max_nested_loop frames 0 (dict_values kvs) of
                  None \<Rightarrow> None
                | Some max_nested \<Rightarrow> Some (total_count, max_nested))
           | JList xs \<Rightarrow> Some (total_count, int (length xs))
           | _ \<Rightarrow> Some (total_count, 0)))"

section \<open>The JSON branch of the data handler\<close>

text \<open>
  What \<^verbatim>\<open>read_file\<close> does with the parsed document \<^verbatim>\<open>json_data\<close> and the query
  parameters \<^verbatim>\<open>page\<close> and \<^verbatim>\<open>page_size\<close>; \<open>None\<close> when the count raises.
\<close>

fun as_data_list :: "json \<Rightarrow> json list" where
  "as_data_list (JList xs) = xs"
| "as_data_list obj = [obj]"

definition read_json_data :: "nat \<Rightarrow> json \<Rightarrow> int \<Rightarrow> int \<Rightarrow> response option" where
  "read_json_data frames json_data page_q page_size_q =
     (case count_json_items frames json_data of
        None \<Rightarrow> None
      | Some (total_count, max_nested) \<Rightarrow>
          Some
            (if total_count \<le> 100 \<and> max_nested \<le> 100 then
               JsonPage json_data total_count
                 \<lparr>page = 1, page_size = total_count, total = total_count, has_next = False\<rparr>
             else
               (let data_list = as_data_list json_data;
                    total_len = int (length data_list);
                    offset = (page_q - 1) * page_size_q;
                    paginated_data = py_slice data_list offset (offset + page_size_q)
                in JsonPage (JList paginated_data) (int (length paginated_data))
                     \<lparr>page = page_q, page_size = page_size_q, total = total_len,
                      has_next = (offset + page_size_q < total_len)\<rparr>)))"

section \<open>Strings and paths\<close>

text \<open>
  \<^verbatim>\<open>s.replace(old, new)\<close>: every occurrence of \<open>old\<close>, found from the left and not
  overlapping; an empty \<open>old\<close> matches before every character and at the end.
\<close>

function replace :: "string \<Rightarrow> string \<Rightarrow> string \<Rightarrow> string" where
  "replace s old new =
     (if old = [] then new @ concat (map (\<lambda>c. c # new) s)
      else if s = [] then []
      else if take (length old) s = old then new @ replace (drop (length old) s) old new
      else hd s # replace (tl s) old new)"
  by pat_completeness auto
termination
  by (relation "measure (\<lambda>(s, old, new). length s)") auto

declare replace.simps [simp del]

text \<open>\<^verbatim>\<open>str(n)\<close> for an integer, as the f-strings of the queries use it.\<close>

definition digit_char :: "nat \<Rightarrow> char" where
  "digit_char d = ''0123456789'' ! d"

fun str_nat :: "nat \<Rightarrow> string" where
  "str_nat n = (if n < 10 then [digit_char n] else str_nat (n div 10) @ [digit_char (n mod 10)])"

declare str_nat.simps [simp del]

definition str_int :: "int \<Rightarrow> string" where
  "str_int i = (if i < 0 then CHR ''-'' # str_nat (nat (- i)) else str_nat (nat i))"

text \<open>
  A \<^verbatim>\<open>Path\<close> is the list of its parts, as \<^verbatim>\<open>Path.parts\<close> gives them: an absolute path
  starts with the part \<^verbatim>\<open>/\<close> (or \<^verbatim>\<open>//\<close>), and no other part holds a slash.
\<close>

type_synonym path = "string list"

definition is_anchor :: "string \<Rightarrow> bool" where
  "is_anchor part = (take 1 part = ''/'')"

text \<open>\<^verbatim>\<open>Path.name\<close> is the last part, and empty for the root alone; \<^verbatim>\<open>Path.parent\<close> of the
  root is the root.\<close>

definition name_of :: "path \<Rightarrow> string" where
  "name_of p = (if p = [] \<or> is_anchor (last p) then [] else last p)"

definition parent :: "path \<Rightarrow> path" where
  "parent p = (if p = [] \<or> is_anchor (last p) then p else butlast p)"

fun rfind :: "char \<Rightarrow> string \<Rightarrow> nat option" where
  "rfind c [] = None"
| "rfind c (x # xs) =
     (case rfind c xs of
        Some i \<Rightarrow> Some (Suc i)
      | None \<Rightarrow> if x = c then Some 0 else None)"

text \<open>\<^verbatim>\<open>Path.suffix\<close>: the name from its last dot on, unless that dot starts or ends
  the name.\<close>

definition suffix_of :: "path \<Rightarrow> string" where
  "suffix_of p =
     (let name = name_of p in
      case rfind (CHR ''.'') name of
        None \<Rightarrow> []
      | Some i \<Rightarrow> if 0 < i \<and> i + 1 < length name then drop i name else [])"

fun join_slash :: "string list \<Rightarrow> string" where
  "join_slash [] = []"
| "join_slash [c] = c"
| "join_slash (c # cs) = c @ CHR ''/'' # join_slash cs"

text \<open>\<^verbatim>\<open>str(p)\<close>; the path without parts is \<^verbatim>\<open>.\<close>\<close>

definition path_str :: "path \<Rightarrow> string" where
  "path_str p =
     (case p of
        [] \<Rightarrow> ''.''
      | part # rest \<Rightarrow> if is_anchor part then part @ join_slash rest else join_slash (part # rest))"

fun split_slash :: "string \<Rightarrow> string list" where
  "split_slash [] = [[]]"
| "split_slash (c # cs) =
     (if c = CHR ''/'' then [] # split_slash cs
      else (case split_slash cs of
              [] \<Rightarrow> [[c]]
            | part # parts \<Rightarrow> (c # part) # parts))"

text \<open>
  \<^verbatim>\<open>Path(s)\<close>: the root is \<^verbatim>\<open>//\<close> when \<open>s\<close> starts with exactly two slashes and \<^verbatim>\<open>/\<close> when
  it starts with one or with more than two; empty parts and the part \<^verbatim>\<open>.\<close> are dropped.
\<close>

definition anchor_of :: "string \<Rightarrow> path" where
  "anchor_of s =
     (if take 2 s = ''//'' \<and> take 3 s \<noteq> ''///'' then [''//'']
      else if take 1 s = ''/'' then [''/'']
      else [])"

definition parse_parts :: "string \<Rightarrow> path" where
  "parse_parts s =
     anchor_of s @ filter (\<lambda>part. part \<noteq> [] \<and> part \<noteq> ''.'') (split_slash s)"

text \<open>\<^verbatim>\<open>data_path / item\<close>: an absolute \<open>item\<close> replaces the left operand.\<close>

definition truediv :: "path \<Rightarrow> string \<Rightarrow> path" where
  "truediv p item = (if take 1 item = ''/'' then parse_parts item else p @ parse_parts item)"

definition sq :: string where
  "sq = [CHR 0x27]"

text \<open>
  \<^verbatim>\<open>p.relative_to(base)\<close> raises \<^verbatim>\<open>ValueError\<close> unless the parts of \<open>base\<close> start those of
  \<open>p\<close>; against the empty path an absolute \<open>p\<close> raises too. The text is that of
  Python 3.11, for paths without quotes or backslashes.
\<close>

definition relative_to :: "path \<Rightarrow> path \<Rightarrow> exn + path" where
  "relative_to p base =
     (if (if base = [] then \<not> (p \<noteq> [] \<and> is_anchor (hd p)) else take (length base) p = base)
      then Inr (drop (length base) p)
      else Inl (Exn ''ValueError''
                 (sq @ path_str p @ sq @ '' is not in the subpath of '' @ sq @ path_str base @ sq @
                  '' OR one path is relative and the other is absolute.'')))"

section \<open>The environment: file system, JSON loader and query engine\<close>

text \<open>
  What the program reads from outside is a parameter of the model: what \<^verbatim>\<open>stat\<close>
  says of a path, the names a directory lists, \<^verbatim>\<open>Path(s).resolve()\<close>, the outcome of
  opening a file and \<^verbatim>\<open>json.load\<close>, and the outcome of \<^verbatim>\<open>conn.execute(query)\<close> on a
  fresh in-memory connection: an exception, or the rows \<^verbatim>\<open>fetchall()\<close> gives with the
  \<^verbatim>\<open>conn.description\<close> of that query (a name and a type per column; a type that is
  false in a condition is \<open>None\<close>, any other is the text \<^verbatim>\<open>str\<close> gives).

  The interpreter is a parameter too: \<^verbatim>\<open>str.lower\<close>, which its Unicode tables define; the
  number of frames it can still enter when \<^verbatim>\<open>_count_json_items\<close> calls \<^verbatim>\<open>count_nested\<close>;
  and the text of the \<^verbatim>\<open>RecursionError\<close> it raises while a document is counted.
\<close>

datatype file_type = RegularFile | Directory | OtherFile

record query_result =
  rows :: "cell list list"
  description :: "(string \<times> string option) list option"

record environment =
  stat :: "path \<Rightarrow> file_type option"
  listdir :: "path \<Rightarrow> string list"
  resolve :: "string \<Rightarrow> path"
  module_file :: path
  json_load :: "path \<Rightarrow> exn + json"
  execute :: "string \<Rightarrow> exn + query_result"
  str_lower :: "string \<Rightarrow> string"
  free_frames :: nat
  recursion_text :: "json \<Rightarrow> string"

definition path_exists :: "environment \<Rightarrow> path \<Rightarrow> bool" where
  "path_exists env p = (stat env p \<noteq> None)"

definition is_file :: "environment \<Rightarrow> path \<Rightarrow> bool" where
  "is_file env p = (stat env p = Some RegularFile)"

definition is_dir :: "environment \<Rightarrow> path \<Rightarrow> bool" where
  "is_dir env p = (stat env p = Some Directory)"

definition iterdir :: "environment \<Rightarrow> path \<Rightarrow> path list" where
  "iterdir env p = map (\<lambda>n. p @ [n]) (listdir env p)"

section \<open>Building the catalog\<close>

definition get_data_path :: "environment \<Rightarrow> string \<Rightarrow> exn + path" where
  "get_data_path env path_data =
     (let resolved_path =
            (if path_data = ''duckdbfastapi_datasample''
             then truediv (parent (parent (module_file env))) ''datasample''
             else resolve env path_data)
      in if \<not> path_exists env resolved_path then
           Inl (Exn ''ValueError'' (''Data path does not exist: '' @ path_str resolved_path))
         else if \<not> is_dir env resolved_path then
           Inl (Exn ''ValueError'' (''Data path must be a directory: '' @ path_str resolved_path))
         else Inr resolved_path)"

text \<open>
  \<^verbatim>\<open>_get_items_to_process\<close>. \<^verbatim>\<open>if specific_items:\<close> is false for \<^verbatim>\<open>None\<close> and for the empty
  list alike. \<^verbatim>\<open>sorted\<close> orders paths by their components.
\<close>

definition get_items_to_process :: "environment \<Rightarrow> path \<Rightarrow> string list option \<Rightarrow> path list" where
  "get_items_to_process env data_path specific_items =
     (case specific_items of
        Some (item # others) \<Rightarrow>
          filter (path_exists env) (map (truediv data_path) (item # others))
      | _ \<Rightarrow>
          filter (\<lambda>item. is_file env item \<or> is_dir env item) (sort (iterdir env data_path)))"

definition has_parquet_files :: "environment \<Rightarrow> path \<Rightarrow> bool" where
  "has_parquet_files env folder_path =
     (if \<not> is_dir env folder_path then False
      else list_ex (\<lambda>f. suffix_of f = ''.parquet'') (filter (is_file env) (iterdir env folder_path)))"


section \<open>The table branches of the data handlers\<close>

text \<open>\<^verbatim>\<open>total_result[0][0] if total_result else 0\<close>\<close>

fun first_cell_or_zero :: "cell list list \<Rightarrow> exn + cell" where
  "first_cell_or_zero [] = Inr (IntCell 0)"
| "first_cell_or_zero ([] # _) = Inl (Exn ''IndexError'' ''tuple index out of range'')"
| "first_cell_or_zero ((c # _) # _) = Inr c"

text \<open>
  The total is compared with an integer when the response is built. \<^verbatim>\<open>COUNT(*)\<close> is an
  integer; \<^verbatim>\<open>None\<close> and a string make the comparison raise \<^verbatim>\<open>TypeError\<close>, and the
  model does the same for every cell that is not an integer.
\<close>

fun int_of_cell :: "cell \<Rightarrow> exn + int" where
  "int_of_cell (IntCell n) = Inr n"
| "int_of_cell Null =
     Inl (Exn ''TypeError''
           (sq @ ''<'' @ sq @ '' not supported between instances of '' @ sq @ ''int'' @ sq @
            '' and '' @ sq @ ''NoneType'' @ sq))"
| "int_of_cell (StrCell s) =
     Inl (Exn ''TypeError''
           (sq @ ''<'' @ sq @ '' not supported between instances of '' @ sq @ ''int'' @ sq @
            '' and '' @ sq @ ''str'' @ sq))"
| "int_of_cell (OtherCell s) =
     Inl (Exn ''TypeError'' (sq @ ''<'' @ sq @ '' not supported between instances''))"

text \<open>\<^verbatim>\<open>dict(zip(columns, row))\<close>: of two columns with one name the later one stays.\<close>

definition row_dict :: "string list \<Rightarrow> cell list \<Rightarrow> (string \<rightharpoonup> cell)" where
  "row_dict cols row = map_of (rev (zip cols row))"

text \<open>
  The two queries that the CSV, TSV/TXT, Parquet and Parquet-folder branches run, each
  on its own \<open>source\<close> expression, and the response built from them.
\<close>

definition count_query :: "string \<Rightarrow> string" where
  "count_query source = ''SELECT COUNT(*) as cnt FROM '' @ source"

definition page_query :: "string \<Rightarrow> int \<Rightarrow> int \<Rightarrow> string" where
  "page_query source page_size_q offset =
     ''SELECT * FROM '' @ source @ '' LIMIT '' @ str_int page_size_q @ '' OFFSET '' @ str_int offset"

definition paged_select :: "environment \<Rightarrow> string \<Rightarrow> int \<Rightarrow> int \<Rightarrow> exn + response" where
  "paged_select env source page_q page_size_q =
     (case execute env (count_query source) of
        Inl e \<Rightarrow> Inl e
      | Inr total_result \<Rightarrow>
          (case first_cell_or_zero (rows total_result) of
             Inl e \<Rightarrow> Inl e
           | Inr total_count \<Rightarrow>
               (let offset = (page_q - 1) * page_size_q in
                case execute env (page_query source page_size_q offset) of
                  Inl e \<Rightarrow> Inl e
                | Inr result \<Rightarrow>
                    (let cols = (case description result of
                                   None \<Rightarrow> []
                                 | Some descs \<Rightarrow> map fst descs);
                         data_list = map (row_dict cols) (rows result)
                     in case int_of_cell total_count of
                          Inl e \<Rightarrow> Inl e
                        | Inr total_n \<Rightarrow>
                            Inr (TablePage data_list cols (int (length data_list))
                                  \<lparr>page = page_q, page_size = page_size_q, total = total_n,
                                   has_next = (offset + page_size_q < total_n)\<rparr>)))))"

definition csv_source :: "path \<Rightarrow> string" where
  "csv_source item_path = ''read_csv_auto('' @ sq @ path_str item_path @ sq @ '')''"

definition tsv_source :: "path \<Rightarrow> string" where
  "tsv_source item_path =
     ''read_csv_auto('' @ sq @ path_str item_path @ sq @ '', sep='' @ sq @ [CHR 0x09] @ sq @ '')''"

definition parquet_source :: "path \<Rightarrow> string" where
  "parquet_source item_path = sq @ path_str item_path @ sq"

definition parquet_pattern :: "path \<Rightarrow> string" where
  "parquet_pattern item_path = path_str item_path @ ''/*.parquet''"

text \<open>The body of the \<^verbatim>\<open>try\<close> of \<^verbatim>\<open>read_file\<close>, and the handler with its \<^verbatim>\<open>except\<close>.\<close>

definition read_file_try :: "environment \<Rightarrow> path \<Rightarrow> int \<Rightarrow> int \<Rightarrow> exn + response" where
  "read_file_try env item_path page_q page_size_q =
     (if suffix_of item_path = ''.json'' then
        (case json_load env item_path of
           Inl e \<Rightarrow> Inl e
         | Inr json_data \<Rightarrow>
             (case read_json_data (free_frames env) json_data page_q page_size_q of
                None \<Rightarrow> Inl (Exn ''RecursionError'' (recursion_text env json_data))
              | Some r \<Rightarrow> Inr r))
      else if suffix_of item_path = ''.csv'' then
        paged_select env (csv_source item_path) page_q page_size_q
      else if suffix_of item_path \<in> set [''.tsv'', ''.txt''] then
        paged_select env (tsv_source item_path) page_q page_size_q
      else if suffix_of item_path = ''.parquet'' then
        paged_select env (parquet_source item_path) page_q page_size_q
      else Inr (ErrorBody ''Unsupported file format''))"

definition read_file :: "environment \<Rightarrow> path \<Rightarrow> int \<Rightarrow> int \<Rightarrow> http_exception + response" where
  "read_file env item_path page_q page_size_q =
     (case read_file_try env item_path page_q page_size_q of
        Inl e \<Rightarrow> Inl (HTTPException 500 (''Error reading file: '' @ exn_str e))
      | Inr r \<Rightarrow> Inr r)"

definition read_parquet_folder ::
  "environment \<Rightarrow> path \<Rightarrow> int \<Rightarrow> int \<Rightarrow> http_exception + response" where
  "read_parquet_folder env item_path page_q page_size_q =
     (case paged_select env (sq @ parquet_pattern item_path @ sq) page_q page_size_q of
        Inl e \<Rightarrow> Inl (HTTPException 500 (''Error reading parquet folder: '' @ exn_str e))
      | Inr r \<Rightarrow> Inr r)"

section \<open>Schema introspection\<close>

definition probe_query :: "path \<Rightarrow> exn + string" where
  "probe_query item_path =
     (if suffix_of item_path = ''.json'' then
        Inr (''SELECT * FROM read_json_auto('' @ sq @ path_str item_path @ sq @ '') LIMIT 1'')
      else if suffix_of item_path = ''.csv'' then
        Inr (''SELECT * FROM '' @ csv_source item_path @ '' LIMIT 1'')
      else if suffix_of item_path \<in> set [''.tsv'', ''.txt''] then
        Inr (''SELECT * FROM '' @ tsv_source item_path @ '' LIMIT 1'')
      else if suffix_of item_path = ''.parquet'' then
        Inr (''SELECT * FROM '' @ parquet_source item_path @ '' LIMIT 1'')
      else Inl (Exn ''ValueError'' (''Unsupported file type: '' @ suffix_of item_path)))"

text \<open>\<^verbatim>\<open>result[0][0] if result and result[0] else None\<close>\<close>

fun example_of :: "cell list list \<Rightarrow> cell" where
  "example_of [] = Null"
| "example_of ([] # _) = Null"
| "example_of ((c # _) # _) = c"

fun str_cell :: "cell \<Rightarrow> string" where
  "str_cell Null = ''None''"
| "str_cell (IntCell n) = str_int n"
| "str_cell (StrCell s) = s"
| "str_cell (OtherCell s) = s"

text \<open>
  The body of the loop over \<^verbatim>\<open>conn.description\<close>: the descriptor of one column.
  \<open>example_query\<close> builds the single-column query of the handler from the column name.
\<close>

definition column_descriptor ::
  "environment \<Rightarrow> (string \<Rightarrow> string) \<Rightarrow> string \<times> string option \<Rightarrow> exn + column_info" where
  "column_descriptor env example_query desc =
     (let col_name = fst desc;
          col_type = (case snd desc of Some t \<Rightarrow> t | None \<Rightarrow> ''unknown'')
      in case execute env (example_query col_name) of
           Inl e \<Rightarrow> Inl e
         | Inr result \<Rightarrow>
             (let example = example_of (rows result)
              in Inr \<lparr>column_name = col_name, data_type = col_type,
                      example_value = (if example \<noteq> Null then str_cell example else ''NULL'')\<rparr>))"

fun columns_loop ::
  "environment \<Rightarrow> (string \<Rightarrow> string) \<Rightarrow> (string \<times> string option) list \<Rightarrow>
   column_info list \<Rightarrow> exn + column_info list" where
  "columns_loop env example_query [] columns_info = Inr columns_info"
| "columns_loop env example_query (desc # descs) columns_info =
     (case column_descriptor env example_query desc of
        Inl e \<Rightarrow> Inl e
      | Inr info \<Rightarrow> columns_loop env example_query descs (columns_info @ [info]))"

definition columns_page :: "column_info list \<Rightarrow> int \<Rightarrow> int \<Rightarrow> response" where
  "columns_page columns_info page_q page_size_q =
     (let total_len = int (length columns_info);
          offset = (page_q - 1) * page_size_q;
          paginated_columns = py_slice columns_info offset (offset + page_size_q)
      in SchemaPage paginated_columns (int (length paginated_columns))
           \<lparr>page = page_q, page_size = page_size_q, total = total_len,
            has_next = (offset + page_size_q < total_len)\<rparr>)"

text \<open>Iterating over a \<^verbatim>\<open>conn.description\<close> that is \<^verbatim>\<open>None\<close> raises \<^verbatim>\<open>TypeError\<close>.\<close>

definition describe_columns ::
  "environment \<Rightarrow> string \<Rightarrow> (string \<Rightarrow> string) \<Rightarrow> exn + column_info list" where
  "describe_columns env query example_query =
     (case execute env query of
        Inl e \<Rightarrow> Inl e
      | Inr probe \<Rightarrow>
          (case description probe of
             None \<Rightarrow> Inl (Exn ''TypeError'' (sq @ ''NoneType'' @ sq @ '' object is not iterable''))
           | Some descs \<Rightarrow> columns_loop env example_query descs []))"

definition file_example_query :: "string \<Rightarrow> string \<Rightarrow> string" where
  "file_example_query query col_name =
     ''SELECT '' @ col_name @ '' FROM ('' @ replace query ''LIMIT 1'' [] @ '') LIMIT 1''"

definition get_column_info_try :: "environment \<Rightarrow> path \<Rightarrow> int \<Rightarrow> int \<Rightarrow> exn + response" where
  "get_column_info_try env item_path page_q page_size_q =
     (case probe_query item_path of
        Inl e \<Rightarrow> Inl e
      | Inr query \<Rightarrow>
          (case describe_columns env query (file_example_query query) of
             Inl e \<Rightarrow> Inl e
           | Inr columns_info \<Rightarrow> Inr (columns_page columns_info page_q page_size_q)))"

definition get_column_info ::
  "environment \<Rightarrow> path \<Rightarrow> int \<Rightarrow> int \<Rightarrow> http_exception + response" where
  "get_column_info env item_path page_q page_size_q =
     (case get_column_info_try env item_path page_q page_size_q of
        Inl e \<Rightarrow> Inl (HTTPException 500 (''Error getting column info: '' @ exn_str e))
      | Inr r \<Rightarrow> Inr r)"

definition folder_example_query :: "path \<Rightarrow> string \<Rightarrow> string" where
  "folder_example_query item_path col_name =
     ''SELECT '' @ col_name @ '' FROM '' @ sq @ parquet_pattern item_path @ sq @ '' LIMIT 1''"

definition get_parquet_folder_column_info_try ::
  "environment \<Rightarrow> path \<Rightarrow> int \<Rightarrow> int \<Rightarrow> exn + response" where
  "get_parquet_folder_column_info_try env item_path page_q page_size_q =
     (case describe_columns env
             (''SELECT * FROM '' @ sq @ parquet_pattern item_path @ sq @ '' LIMIT 1'')
             (folder_example_query item_path) of
        Inl e \<Rightarrow> Inl e
      | Inr columns_info \<Rightarrow> Inr (columns_page columns_info page_q page_size_q))"

definition get_parquet_folder_column_info ::
  "environment \<Rightarrow> path \<Rightarrow> int \<Rightarrow> int \<Rightarrow> http_exception + response" where
  "get_parquet_folder_column_info env item_path page_q page_size_q =
     (case get_parquet_folder_column_info_try env item_path page_q page_size_q of
        Inl e \<Rightarrow>
          Inl (HTTPException 500 (''Error getting parquet folder column info: '' @ exn_str e))
      | Inr r \<Rightarrow> Inr r)"


section \<open>Directory listing\<close>

fun listing_loop ::
  "environment \<Rightarrow> path \<Rightarrow> path list \<Rightarrow> dir_entry list \<Rightarrow> exn + dir_entry list" where
  "listing_loop env data_path [] listed = Inr listed"
| "listing_loop env data_path (file_item # file_items) listed =
     (case relative_to file_item data_path of
        Inl e \<Rightarrow> Inl e
      | Inr rel \<Rightarrow>
          listing_loop env data_path file_items
            (listed @
             [\<lparr>entry_name = name_of file_item,
               entry_type = (if is_file env file_item then ''file'' else ''directory''),
               entry_path = path_str rel\<rparr>]))"

text \<open>
  \<^verbatim>\<open>read_directory\<close> reads \<^verbatim>\<open>item_name\<close> from the enclosing scope when it is called, so
  it takes the value that variable has then.
\<close>

definition read_directory ::
  "environment \<Rightarrow> path \<Rightarrow> string \<Rightarrow> path \<Rightarrow> http_exception + response" where
  "read_directory env data_path item_name item_path =
     (case listing_loop env data_path (sort (iterdir env item_path)) [] of
        Inl e \<Rightarrow> Inl (HTTPException 500 (''Error reading directory: '' @ exn_str e))
      | Inr listed \<Rightarrow> Inr (DirListing item_name listed))"

section \<open>Registering the endpoints\<close>

text \<open>
  A registered handler with the item that is the default of its parameter
  \<^verbatim>\<open>item_path\<close>. The serving layer reads that parameter from the query string of the
  request, so a request may name another path.
\<close>

datatype handler =
    ReadFile path
  | GetColumnInfo path
  | ReadParquetFolder path
  | GetParquetFolderColumnInfo path
  | ReadDirectory path
  | HealthCheck
  | Root

type_synonym route = "string \<times> handler"

text \<open>\<^verbatim>\<open>item.name.lower().replace(" ", "_").replace("-", "_")\<close>\<close>

definition make_item_name :: "(string \<Rightarrow> string) \<Rightarrow> string \<Rightarrow> string" where
  "make_item_name lower name = replace (replace (lower name) '' '' ''_'') ''-'' ''_''"

definition item_name_of :: "environment \<Rightarrow> path \<Rightarrow> string" where
  "item_name_of env item = make_item_name (str_lower env) (name_of item)"

definition supported_suffixes :: "string list" where
  "supported_suffixes = [''.json'', ''.csv'', ''.tsv'', ''.txt'', ''.parquet'']"

text \<open>One turn of the loop of \<^verbatim>\<open>_create_endpoints\<close>: the routes it adds for \<open>item\<close>.\<close>

definition item_routes :: "environment \<Rightarrow> bool \<Rightarrow> path \<Rightarrow> route list" where
  "item_routes env include_schema_cols item =
     (let item_name = item_name_of env item in
      if is_file env item then
        (if suffix_of item \<in> set supported_suffixes then
           (''/data/'' @ item_name, ReadFile item) #
           (if include_schema_cols
            then [(''/data/'' @ item_name @ ''_columnnames'', GetColumnInfo item)]
            else [])
         else [])
      else if is_dir env item then
        (if has_parquet_files env item then
           (''/data/'' @ item_name, ReadParquetFolder item) #
           (if include_schema_cols
            then [(''/data/'' @ item_name @ ''_columnnames'', GetParquetFolderColumnInfo item)]
            else [])
         else [(''/data/'' @ item_name, ReadDirectory item)])
      else [])"

fun create_endpoints :: "environment \<Rightarrow> route list \<Rightarrow> path list \<Rightarrow> bool \<Rightarrow> route list" where
  "create_endpoints env app [] include_schema_cols = app"
| "create_endpoints env app (item # items) include_schema_cols =
     create_endpoints env (app @ item_routes env include_schema_cols item) items
       include_schema_cols"

text \<open>
  The application as \<^verbatim>\<open>run_fastapi\<close> hands it to the server: the data path, the items
  and the routes in the order of their registration.
\<close>

record application =
  app_data_path :: path
  app_items :: "path list"
  app_routes :: "route list"

text \<open>\<^verbatim>\<open>str\<close> of a list of names, for names without quotes or backslashes.\<close>

fun join_comma :: "string list \<Rightarrow> string" where
  "join_comma [] = []"
| "join_comma [x] = x"
| "join_comma (x # xs) = x @ '', '' @ join_comma xs"

definition str_names :: "string list \<Rightarrow> string" where
  "str_names names = ''['' @ join_comma (map (\<lambda>n. sq @ n @ sq) names) @ '']''"

definition run_fastapi ::
  "environment \<Rightarrow> string \<Rightarrow> string list option \<Rightarrow> int \<Rightarrow> string \<Rightarrow> exn + application" where
  "run_fastapi env path_data specific_items port host =
     (if port < 1 \<or> port > 65535 then
        Inl (Exn ''ValueError'' ''Port must be an integer between 1 and 65535'')
      else if host = [] then
        Inl (Exn ''ValueError'' ''Host must be a non-empty string'')
      else
        (case get_data_path env path_data of
           Inl e \<Rightarrow> Inl (Exn ''ValueError'' (''Invalid path_data: '' @ exn_str e))
         | Inr data_path \<Rightarrow>
             (let items = get_items_to_process env data_path specific_items in
              if items = [] then
                Inl (Exn ''ValueError''
                      (''No items found in '' @ path_str data_path @
                       (case specific_items of
                          Some (n # ns) \<Rightarrow> '' matching '' @ str_names (n # ns)
                        | _ \<Rightarrow> [])))
              else
                Inr \<lparr>app_data_path = data_path, app_items = items,
                     app_routes = create_endpoints env [] items True @
                                  [(''/health'', HealthCheck), (''/'', Root)]\<rparr>)))"

text \<open>
  Calling a registered handler with the query parameters. The serving layer calls it only
  with parameters that pass \<^verbatim>\<open>Query(1, ge=1)\<close> and \<^verbatim>\<open>Query(5, ge=1, le=1000)\<close>.
\<close>

definition valid_query :: "int \<Rightarrow> int \<Rightarrow> bool" where
  "valid_query page_q page_size_q = (1 \<le> page_q \<and> 1 \<le> page_size_q \<and> page_size_q \<le> 1000)"

text \<open>The \<^verbatim>\<open>item_path\<close> a handler runs with: \<^verbatim>\<open>Path(s)\<close> for a query value \<open>s\<close>.\<close>

definition effective_path :: "path \<Rightarrow> string option \<Rightarrow> path" where
  "effective_path item item_path_q =
     (case item_path_q of None \<Rightarrow> item | Some s \<Rightarrow> parse_parts s)"

fun call_handler ::
  "environment \<Rightarrow> application \<Rightarrow> handler \<Rightarrow> string option \<Rightarrow> int \<Rightarrow> int \<Rightarrow>
   http_exception + response" where
  "call_handler env app (ReadFile item) item_path_q page_q page_size_q =
     read_file env (effective_path item item_path_q) page_q page_size_q"
| "call_handler env app (GetColumnInfo item) item_path_q page_q page_size_q =
     get_column_info env (effective_path item item_path_q) page_q page_size_q"
| "call_handler env app (ReadParquetFolder item) item_path_q page_q page_size_q =
     read_parquet_folder env (effective_path item item_path_q) page_q page_size_q"
| "call_handler env app (GetParquetFolderColumnInfo item) item_path_q page_q page_size_q =
     get_parquet_folder_column_info env (effective_path item item_path_q) page_q page_size_q"
| "call_handler env app (ReadDirectory item) item_path_q page_q page_size_q =
     read_directory env (app_data_path app) (item_name_of env (last (app_items app)))
       (effective_path item item_path_q)"
| "call_handler env app HealthCheck item_path_q page_q page_size_q =
     Inr (HealthBody ''healthy'' ''0.1.0'')"
| "call_handler env app Root item_path_q page_q page_size_q =
     Inr (RootBody ''DuckDB FastAPI'' ''0.1.0'' (path_str (app_data_path app))
           (map (\<lambda>item. ''/data/'' @ name_of item) (app_items app)))"

text \<open>
  The server answers the requests it receives one after the other, each by a call of the
  handler of its route. The handlers share the application and nothing else; every one
  of them opens its own connection and none assigns to a variable outside itself.
\<close>

record request =
  req_handler :: handler
  req_item_path :: "string option"
  req_page :: int
  req_page_size :: int

definition answer :: "environment \<Rightarrow> application \<Rightarrow> request \<Rightarrow> http_exception + response" where
  "answer env app req =
     call_handler env app (req_handler req) (req_item_path req) (req_page req) (req_page_size req)"

fun serve ::
  "environment \<Rightarrow> application \<Rightarrow> request list \<Rightarrow> (http_exception + response) list" where
  "serve env app [] = []"
| "serve env app (req # reqs) = answer env app req # serve env app reqs"

section \<open>Notions of the specification\<close>

text \<open>
  The invariant the specification states for a page result, read off the response itself:
  with \<open>offset = (page - 1) * page_size\<close>, \<open>has_next\<close> says that rows remain after the
  page, and \<open>count\<close> is the part of the page that the total fills.
\<close>

definition page_invariant :: "response \<Rightarrow> bool" where
  "page_invariant r =
     (let pg = pagination r; offset = (page pg - 1) * page_size pg
      in has_next pg = (offset + page_size pg < total pg) \<and>
         count r = min (page_size pg) (max 0 (total pg - offset)))"

text \<open>
  The kinds of the specification and its classification of a path: a regular file by its
  extension, a directory by whether one of its direct children is a file with the
  extension \<^verbatim>\<open>.parquet\<close>; and the handlers the specification binds to each kind (a data
  route, and a schema route when schema exposure is enabled).
\<close>

datatype kind =
  JsonFile | CsvFile | TsvOrTextFile | ParquetFile | ParquetFolder | PlainFolder | Unsupported

definition spec_file_kind :: "string \<Rightarrow> kind" where
  "spec_file_kind extension =
     (if extension = ''.json'' then JsonFile
      else if extension = ''.csv'' then CsvFile
      else if extension = ''.tsv'' \<or> extension = ''.txt'' then TsvOrTextFile
      else if extension = ''.parquet'' then ParquetFile
      else Unsupported)"

definition spec_classify :: "environment \<Rightarrow> path \<Rightarrow> kind" where
  "spec_classify env p =
     (if is_file env p then spec_file_kind (suffix_of p)
      else if is_dir env p then
        (if list_ex (\<lambda>n. is_file env (p @ [n]) \<and> suffix_of (p @ [n]) = ''.parquet'')
              (listdir env p)
         then ParquetFolder else PlainFolder)
      else Unsupported)"

fun spec_handlers :: "kind \<Rightarrow> bool \<Rightarrow> path \<Rightarrow> handler list" where
  "spec_handlers Unsupported schema p = []"
| "spec_handlers PlainFolder schema p = [ReadDirectory p]"
| "spec_handlers ParquetFolder schema p =
     ReadParquetFolder p # (if schema then [GetParquetFolderColumnInfo p] else [])"
| "spec_handlers _ schema p = ReadFile p # (if schema then [GetColumnInfo p] else [])"

text \<open>
  The example value as the specification words it: the text of the first value of the
  column that is not null, or \<^verbatim>\<open>"NULL"\<close> when the column has none.
\<close>

definition spec_example_value :: "cell list \<Rightarrow> string" where
  "spec_example_value column_values =
     (case filter (\<lambda>c. c \<noteq> Null) column_values of
        [] \<Rightarrow> ''NULL''
      | c # _ \<Rightarrow> str_cell c)"

text \<open>The source expression of the table branch that \<open>read_file_try\<close> takes for a path.\<close>

definition table_source :: "path \<Rightarrow> string option" where
  "table_source item_path =
     (if suffix_of item_path = ''.json'' then None
      else if suffix_of item_path = ''.csv'' then Some (csv_source item_path)
      else if suffix_of item_path \<in> set [''.tsv'', ''.txt''] then Some (tsv_source item_path)
      else if suffix_of item_path = ''.parquet'' then Some (parquet_source item_path)
      else None)"

text \<open>
  The structural count as the specification defines it: a mapping contributes the sum of
  the counts of its values, a sequence its length plus the counts of its elements, a
  scalar 1.
\<close>

fun spec_total :: "json \<Rightarrow> int" where
  "spec_total (JDict kvs) = (\<Sum>v\<leftarrow>map snd kvs. spec_total v)"
| "spec_total (JList xs) = int (length xs) + (\<Sum>x\<leftarrow>xs. spec_total x)"
| "spec_total _ = 1"

text \<open>
  The second component of the count, as the specification words it: the length of a
  top-level sequence, and for a top-level mapping the largest count among its values.
\<close>

definition spec_max_nested :: "json \<Rightarrow> int" where
  "spec_max_nested obj =
     (case obj of
        JList xs \<Rightarrow> int (length xs)
      | JDict kvs \<Rightarrow> fold max (map spec_total (dict_values kvs)) 0
      | _ \<Rightarrow> 0)"

text \<open>
  The second component as \<^verbatim>\<open>_count_json_items\<close> computes it: only the values of a mapping
  that are mappings or sequences enter the maximum, which starts from 0.
\<close>

definition nested_max :: "json \<Rightarrow> int" where
  "nested_max obj =
     (case obj of
        JList xs \<Rightarrow> int (length xs)
      | JDict kvs \<Rightarrow> Max (insert 0 (spec_total ` {v \<in> set (dict_values kvs). is_collection v}))
      | _ \<Rightarrow> 0)"

text \<open>
  The frames \<open>count_nested\<close> enters on a document: one for a scalar, and for a collection
  two more than the most that one of its members takes.
\<close>

fun frames_needed :: "json \<Rightarrow> nat" where
  "frames_needed (JDict kvs) = 2 + fold max (map frames_needed (map snd kvs)) 0"
| "frames_needed (JList xs) = 2 + fold max (map frames_needed xs) 0"
| "frames_needed _ = 1"

text \<open>
  The engine queries that the handler of a request sends when none of them fails: the
  count and the page of a table, the probe of a schema and the query of each column that
  the probe describes.
\<close>

definition table_queries :: "string \<Rightarrow> int \<Rightarrow> int \<Rightarrow> string list" where
  "table_queries source page_q page_size_q =
     [count_query source, page_query source page_size_q ((page_q - 1) * page_size_q)]"

definition schema_queries :: "environment \<Rightarrow> string \<Rightarrow> (string \<Rightarrow> string) \<Rightarrow> string list" where
  "schema_queries env query example_query =
     query #
     (case execute env query of
        Inl e \<Rightarrow> []
      | Inr probe \<Rightarrow>
          (case description probe of
             None \<Rightarrow> []
           | Some descs \<Rightarrow> map (\<lambda>desc. example_query (fst desc)) descs))"

fun handler_queries :: "environment \<Rightarrow> handler \<Rightarrow> string option \<Rightarrow> int \<Rightarrow> int \<Rightarrow> string list" where
  "handler_queries env (ReadFile item) item_path_q page_q page_size_q =
     (case table_source (effective_path item item_path_q) of
        None \<Rightarrow> []
      | Some source \<Rightarrow> table_queries source page_q page_size_q)"
| "handler_queries env (ReadParquetFolder item) item_path_q page_q page_size_q =
     table_queries (sq @ parquet_pattern (effective_path item item_path_q) @ sq) page_q page_size_q"
| "handler_queries env (GetColumnInfo item) item_path_q page_q page_size_q =
     (case probe_query (effective_path item item_path_q) of
        Inl e \<Rightarrow> []
      | Inr query \<Rightarrow> schema_queries env query (file_example_query query))"
| "handler_queries env (GetParquetFolderColumnInfo item) item_path_q page_q page_size_q =
     schema_queries env
       (''SELECT * FROM '' @ sq @ parquet_pattern (effective_path item item_path_q) @ sq @
        '' LIMIT 1'')
       (folder_example_query (effective_path item item_path_q))"
| "handler_queries env h item_path_q page_q page_size_q = []"

section \<open>A sample environment\<close>

text \<open>
  A data directory \<^verbatim>\<open>/data\<close> with a CSV file of the rows \<^verbatim>\<open>(1, x)\<close> and \<^verbatim>\<open>(2, y)\<close>, a small
  and a large JSON list, an unsupported file, a folder of Parquet shards and a plain
  folder. The engine answers the count query with 2, a query for one column with the
  first value of that column, and every other query with the first row. The sample
  interpreter lower-cases the ASCII letters and has 900 frames left for the count.
\<close>

definition sample_result :: query_result where
  "sample_result =
     \<lparr>rows = [[IntCell 1, StrCell ''x'']],
      description = Some [(''id'', Some ''BIGINT''), (''name'', Some ''VARCHAR'')]\<rparr>"

definition sample_execute :: "string \<Rightarrow> exn + query_result" where
  "sample_execute q =
     (if take 15 q = ''SELECT COUNT(*)'' then
        Inr \<lparr>rows = [[IntCell 2]], description = Some [(''cnt'', Some ''BIGINT'')]\<rparr>
      else if take 10 q = ''SELECT id '' then
        Inr \<lparr>rows = [[IntCell 1]], description = Some [(''id'', Some ''BIGINT'')]\<rparr>
      else if take 12 q = ''SELECT name '' then
        Inr \<lparr>rows = [[StrCell ''x'']], description = Some [(''name'', Some ''VARCHAR'')]\<rparr>
      else Inr sample_result)"

definition sample_lower_char :: "char \<Rightarrow> char" where
  "sample_lower_char c =
     (if CHR ''A'' \<le> c \<and> c \<le> CHR ''Z'' then char_of (of_char c + (32::nat)) else c)"

definition sample_lower :: "string \<Rightarrow> string" where
  "sample_lower s = map sample_lower_char s"

definition sample_env :: environment where
  "sample_env =
     \<lparr>stat = (\<lambda>p. if p \<in> set [[''/'', ''data''], [''/'', ''data'', ''shards''],
                               [''/'', ''data'', ''docs'']]
                  then Some Directory
                else if p \<in> set [[''/'', ''data'', ''a.csv''], [''/'', ''data'', ''b.json''],
                                 [''/'', ''data'', ''Big List.json''],
                                 [''/'', ''data'', ''notes.md''],
                                 [''/'', ''data'', ''shards'', ''p1.parquet''],
                                 [''/'', ''data'', ''docs'', ''readme.md'']]
                  then Some RegularFile
                else None),
      listdir = (\<lambda>p. if p = [''/'', ''data'']
                       then [''shards'', ''b.json'', ''a.csv'', ''notes.md'', ''docs'',
                             ''Big List.json'']
                     else if p = [''/'', ''data'', ''shards''] then [''p1.parquet'']
                     else if p = [''/'', ''data'', ''docs''] then [''readme.md'']
                     else []),
      resolve = parse_parts,
      module_file = [''/'', ''pkg'', ''duckdbfastapi'', ''main.py''],
      json_load = (\<lambda>p. if p = [''/'', ''data'', ''b.json''] then Inr (JList [JInt 1, JInt 2])
                       else if p = [''/'', ''data'', ''Big List.json'']
                         then Inr (JList (replicate 101 JNull))
                       else Inl (Exn ''FileNotFoundError'' ''No such file or directory'')),
      execute = sample_execute,
      str_lower = sample_lower,
      free_frames = 900,
      recursion_text = (\<lambda>obj. ''maximum recursion depth exceeded'')\<rparr>"

text \<open>
  A Parquet file with one column \<^verbatim>\<open>x\<close> whose values are \<^verbatim>\<open>NULL\<close> and 5. Every query the
  schema handler sends ends in \<^verbatim>\<open>LIMIT 1\<close>, and the engine answers with the first row.
\<close>

definition null_first_column :: "cell list" where
  "null_first_column = [Null, IntCell 5]"

definition null_first_execute :: "string \<Rightarrow> exn + query_result" where
  "null_first_execute q =
     (if take 9 q = ''SELECT * '' \<or> take 9 q = ''SELECT x '' then
        Inr \<lparr>rows = map (\<lambda>c. [c]) (take 1 null_first_column),
             description = Some [(''x'', Some ''INTEGER'')]\<rparr>
      else Inl (Exn ''ParserException'' ''syntax error''))"

definition null_first_env :: environment where
  "null_first_env = sample_env\<lparr>execute := null_first_execute\<rparr>"

text \<open>
  An engine that counts the rows of \<^verbatim>\<open>a.csv\<close> and answers its one-row probe, and fails on
  every other query.
\<close>

definition broken_execute :: "string \<Rightarrow> exn + query_result" where
  "broken_execute q =
     (if q = count_query (csv_source [''/'', ''data'', ''a.csv'']) then
        Inr \<lparr>rows = [[IntCell 2]], description = Some [(''cnt'', Some ''BIGINT'')]\<rparr>
      else if q = ''SELECT * FROM '' @ csv_source [''/'', ''data'', ''a.csv''] @ '' LIMIT 1'' then
        Inr sample_result
      else Inl (Exn ''IOException'' ''Could not read file''))"

definition broken_env :: environment where
  "broken_env = sample_env\<lparr>execute := broken_execute\<rparr>"

text \<open>
  Documents nested 500 mappings deep around the number 1, alone and as the first of 101
  items of a list, served by an interpreter that has 1000 frames left, the whole of
  Python's default recursion limit.
\<close>

fun nest :: "nat \<Rightarrow> json \<Rightarrow> json" where
  "nest 0 leaf = leaf"
| "nest (Suc n) leaf = JDict [(''a'', nest n leaf)]"

definition deep_document :: json where
  "deep_document = nest 500 (JInt 1)"

definition deep_list :: "json list" where
  "deep_list = deep_document # replicate 100 JNull"

definition deep_env :: environment where
  "deep_env =
     sample_env
       \<lparr>json_load := (\<lambda>p. if p = [''/'', ''data'', ''deep.json''] then Inr deep_document
                            else if p = [''/'', ''data'', ''deep_list.json'']
                              then Inr (JList deep_list)
                            else Inl (Exn ''FileNotFoundError'' ''No such file or directory'')),
        free_frames := 1000\<rparr>"

section \<open>The count and the frames it needs\<close>

lemma fold_max_le: "fold max ns (m::nat) \<le> f \<longleftrightarrow> m \<le> f \<and> (\<forall>n \<in> set ns. n \<le> f)"
  by (induction ns arbitrary: m) auto

lemma frames_needed_pos: "1 \<le> frames_needed obj"
  by (cases obj) simp_all

lemma frames_needed_collection: "is_collection obj \<Longrightarrow> 2 \<le> frames_needed obj"
  by (cases obj) simp_all

lemma frames_needed_scalar: "\<not> is_collection obj \<Longrightarrow> frames_needed obj = 1"
  by (cases obj) simp_all

lemma spec_total_scalar: "\<not> is_collection obj \<Longrightarrow> spec_total obj = 1"
  by (cases obj) simp_all

lemma sum_counts_map:
  "sum_counts (map g xs) =
     (if \<forall>x \<in> set xs. g x \<noteq> None then Some (\<Sum>x\<leftarrow>xs. the (g x)) else None)"
proof (induction xs)
  case Nil
  show ?case by simp
next
  case (Cons x xs)
  show ?case
  proof (cases "g x")
    case None
    then show ?thesis by simp
  next
    case (Some n)
    then show ?thesis using Cons by (auto split: option.splits)
  qed
qed

lemma sum_counts_members:
  assumes "\<And>v. v \<in> set vs \<Longrightarrow>
             g v = (if frames_needed v \<le> f then Some (spec_total v) else None)"
  shows "sum_counts (map g vs) =
           (if \<forall>v \<in> set vs. frames_needed v \<le> f then Some (\<Sum>v\<leftarrow>vs. spec_total v) else None)"
proof -
  have a: "(\<forall>v \<in> set vs. g v \<noteq> None) \<longleftrightarrow> (\<forall>v \<in> set vs. frames_needed v \<le> f)"
    using assms by auto
  have b: "(\<forall>v \<in> set vs. frames_needed v \<le> f) \<Longrightarrow>
             map (\<lambda>v. the (g v)) vs = map spec_total vs"
    using assms by (intro map_cong) auto
  show ?thesis
  proof (cases "\<forall>v \<in> set vs. frames_needed v \<le> f")
    case True
    have "(\<Sum>x\<leftarrow>vs. the (g x)) = (\<Sum>v\<leftarrow>vs. spec_total v)"
      using b[OF True] by (rule arg_cong)
    with True show ?thesis unfolding sum_counts_map a by (simp only: if_True)
  next
    case False
    then show ?thesis unfolding sum_counts_map a by (simp only: if_False)
  qed
qed

lemma count_nested_eq:
  "count_nested f obj d = (if frames_needed obj \<le> f then Some (spec_total obj) else None)"
proof (induction f obj d rule: count_nested.induct)
  case (1 obj depth)
  then show ?case using frames_needed_pos[of obj] by simp
next
  case (2 obj depth)
  show ?case
  proof (cases "is_collection obj")
    case True
    then show ?thesis using frames_needed_collection[of obj] by simp
  next
    case False
    then show ?thesis by (simp add: frames_needed_scalar spec_total_scalar)
  qed
next
  case (3 frames kvs depth)
  have "sum_counts (map (\<lambda>v. count_nested frames v (depth + 1)) (map snd kvs)) =
          (if \<forall>v \<in> set (map snd kvs). frames_needed v \<le> frames
           then Some (\<Sum>v\<leftarrow>map snd kvs. spec_total v) else None)"
    by (rule sum_counts_members) (rule 3)
  then show ?case by (simp add: fold_max_le)
next
  case (4 frames xs depth)
  have "sum_counts (map (\<lambda>v. count_nested frames v (depth + 1)) xs) =
          (if \<forall>v \<in> set xs. frames_needed v \<le> frames
           then Some (\<Sum>v\<leftarrow>xs. spec_total v) else None)"
    by (rule sum_counts_members) (rule 4)
  then show ?case by (simp add: fold_max_le)
qed simp_all

lemma Max_insert_max:
  fixes a b :: int
  assumes "finite S"
  shows "Max (insert (max a b) S) = Max (insert a (insert b S))"
proof (cases "S = {}")
  case True
  then show ?thesis by simp
next
  case False
  then show ?thesis using assms by (simp add: max.assoc)
qed

lemma max_nested_loop_eq:
  assumes "\<forall>v \<in> set vs. is_collection v \<longrightarrow> frames_needed v \<le> f"
  shows "max_nested_loop f m vs =
           Some (Max (insert m (spec_total ` {v \<in> set vs. is_collection v})))"
  using assms
proof (induction vs arbitrary: m)
  case Nil
  then show ?case by simp
next
  case (Cons v vs)
  let ?S = "spec_total ` {u \<in> set vs. is_collection u}"
  have fin: "finite ?S" by simp
  have rest: "\<forall>u \<in> set vs. is_collection u \<longrightarrow> frames_needed u \<le> f"
    using Cons.prems by simp
  show ?case
  proof (cases "is_collection v")
    case True
    then have c: "count_nested f v 0 = Some (spec_total v)"
      using Cons.prems by (simp add: count_nested_eq)
    have eq: "{u \<in> set (v # vs). is_collection u} = insert v {u \<in> set vs. is_collection u}"
      using True by auto
    have "max_nested_loop f m (v # vs) = Some (Max (insert (max m (spec_total v)) ?S))"
      using True c Cons.IH[OF rest, of "max m (spec_total v)"] by simp
    also have "Max (insert (max m (spec_total v)) ?S) = Max (insert m (insert (spec_total v) ?S))"
      by (rule Max_insert_max[OF fin])
    finally show ?thesis unfolding eq by simp
  next
    case False
    have "{u \<in> set (v # vs). is_collection u} = {u \<in> set vs. is_collection u}"
      using False by auto
    then show ?thesis using False Cons.IH[OF rest, of m] by simp
  qed
qed

lemma member_frames:
  "v \<in> set (dict_values kvs) \<Longrightarrow> frames_needed (JDict kvs) \<le> f \<Longrightarrow> frames_needed v \<le> f"
proof -
  assume v: "v \<in> set (dict_values kvs)" and f: "frames_needed (JDict kvs) \<le> f"
  from f have "fold max (map frames_needed (map snd kvs)) 0 \<le> f" by simp
  then have "\<forall>n \<in> set (map frames_needed (map snd kvs)). n \<le> f"
    unfolding fold_max_le by blast
  then show "frames_needed v \<le> f" using v unfolding dict_values_def by auto
qed

lemma count_json_items_fits:
  assumes "frames_needed obj \<le> f"
  shows "count_json_items f obj = Some (spec_total obj, nested_max obj)"
proof (cases obj)
  case (JDict kvs)
  have "\<forall>v \<in> set (dict_values kvs). is_collection v \<longrightarrow> frames_needed v \<le> f"
    using assms member_frames unfolding JDict by blast
  from max_nested_loop_eq[OF this, of 0]
  show ?thesis using assms unfolding JDict
    by (simp add: count_json_items_def count_nested_eq nested_max_def del: frames_needed.simps spec_total.simps)
qed (use assms in \<open>simp_all add: count_json_items_def count_nested_eq nested_max_def del: frames_needed.simps spec_total.simps\<close>)

lemma count_json_items_deep:
  assumes "f < frames_needed obj"
  shows "count_json_items f obj = None"
  using assms by (simp add: count_json_items_def count_nested_eq)

lemma count_json_items_Some:
  "count_json_items f obj = Some (t, m) \<longleftrightarrow>
     frames_needed obj \<le> f \<and> t = spec_total obj \<and> m = nested_max obj"
proof (cases "frames_needed obj \<le> f")
  case True
  then show ?thesis by (auto simp: count_json_items_fits)
next
  case False
  then show ?thesis by (simp add: count_json_items_deep)
qed

lemma read_json_data_Some:
  assumes "count_json_items frames json_data = Some (t, m)"
  shows "read_json_data frames json_data page_q page_size_q =
     Some (if t \<le> 100 \<and> m \<le> 100 then
             JsonPage json_data t \<lparr>page = 1, page_size = t, total = t, has_next = False\<rparr>
           else
             (let data_list = as_data_list json_data;
                  offset = (page_q - 1) * page_size_q;
                  paginated_data = py_slice data_list offset (offset + page_size_q)
              in JsonPage (JList paginated_data) (int (length paginated_data))
                   \<lparr>page = page_q, page_size = page_size_q, total = int (length data_list),
                    has_next = (offset + page_size_q < int (length data_list))\<rparr>))"
  using assms by (simp add: read_json_data_def Let_def)

lemma read_file_json:
  assumes "suffix_of item_path = ''.json''" and "json_load env item_path = Inr json_data"
  shows "read_file env item_path page_q page_size_q =
     (case read_json_data (free_frames env) json_data page_q page_size_q of
        None \<Rightarrow> Inl (HTTPException 500 (''Error reading file: '' @ recursion_text env json_data))
      | Some r \<Rightarrow> Inr r)"
  using assms by (simp add: read_file_def read_file_try_def split: option.splits)

section \<open>The structural count\<close>

text \<open>
  C2, as the code has it. When the frames left cover those that the document needs, the
  count returns the total of the recursive definition (a mapping the sum of the totals of
  its values, a sequence its length plus the totals of its elements, a scalar 1) and, as
  second component, the length of a top-level sequence, 0 for a top-level scalar, and for
  a top-level mapping the largest total among those of its values that are mappings or
  sequences, 0 when it has none. When the document needs more frames the count raises
  \<^verbatim>\<open>RecursionError\<close>.
\<close>

theorem count_json_items_structure:
  "count_json_items frames obj =
     (if frames_needed obj \<le> frames then Some (spec_total obj, nested_max obj) else None) \<and>
   spec_total (JDict kvs) = (\<Sum>v\<leftarrow>dict_values kvs. spec_total v) \<and>
   spec_total (JList xs) = int (length xs) + (\<Sum>x\<leftarrow>xs. spec_total x) \<and>
   spec_total JNull = 1 \<and> spec_total (JBool b) = 1 \<and> spec_total (JInt i) = 1 \<and>
   spec_total (JFloat x) = 1 \<and> spec_total (JStr s) = 1 \<and>
   nested_max (JList xs) = int (length xs) \<and>
   nested_max (JDict kvs) =
     Max (insert 0 (spec_total ` {v \<in> set (dict_values kvs). is_collection v})) \<and>
   nested_max JNull = 0 \<and> nested_max (JBool b) = 0 \<and> nested_max (JInt i) = 0 \<and>
   nested_max (JFloat x) = 0 \<and> nested_max (JStr s) = 0"
proof -
  have "count_json_items frames obj =
     (if frames_needed obj \<le> frames then Some (spec_total obj, nested_max obj) else None)"
    by (simp add: count_json_items_fits count_json_items_deep)
  then show ?thesis by (simp add: nested_max_def dict_values_def)
qed

text \<open>
  C2 as claimed takes the maximum over all values of a top-level mapping. A mapping with
  one scalar value has the second component 0, where that maximum is 1.
\<close>

theorem count_json_items_scalar_values_counterexample:
  "count_json_items 900 (JDict [(''a'', JInt 1)]) \<noteq>
     Some (spec_total (JDict [(''a'', JInt 1)]), spec_max_nested (JDict [(''a'', JInt 1)]))"
proof -
  have f: "frames_needed (JDict [(''a'', JInt 1)]) \<le> 900" by simp
  have e: "{v \<in> set (dict_values [(''a'', JInt 1)]). is_collection v} = {}"
    by (auto simp: dict_values_def)
  have "nested_max (JDict [(''a'', JInt 1)]) = 0"
    unfolding nested_max_def json.case e by simp
  then have "count_json_items 900 (JDict [(''a'', JInt 1)]) = Some (1, 0)"
    by (simp add: count_json_items_fits[OF f])
  then show ?thesis by (simp add: spec_max_nested_def dict_values_def)
qed

section \<open>The small-payload bypass\<close>

text \<open>
  C10. The empty list and the empty mapping count as \<open>(0, 0)\<close> as soon as the two frames
  of the count are left, so the bypass answers with a page size of 0, which no request
  may carry, a total of 0 and no next page.
\<close>

theorem empty_json_document_page_size_zero:
  assumes "2 \<le> frames"
  shows "count_json_items frames (JList []) = Some (0, 0) \<and>
   count_json_items frames (JDict []) = Some (0, 0) \<and>
   read_json_data frames (JList []) page_q page_size_q =
     Some (JsonPage (JList []) 0 \<lparr>page = 1, page_size = 0, total = 0, has_next = False\<rparr>) \<and>
   read_json_data frames (JDict []) page_q page_size_q =
     Some (JsonPage (JDict []) 0 \<lparr>page = 1, page_size = 0, total = 0, has_next = False\<rparr>) \<and>
   \<not> valid_query page_q
       (page_size (pagination (the (read_json_data frames (JList []) page_q page_size_q)))) \<and>
   \<not> valid_query page_q
       (page_size (pagination (the (read_json_data frames (JDict []) page_q page_size_q))))"
proof -
  have l: "count_json_items frames (JList []) = Some (0, 0)"
    using assms by (simp add: count_json_items_fits nested_max_def)
  have d: "count_json_items frames (JDict []) = Some (0, 0)"
    using assms by (simp add: count_json_items_fits nested_max_def dict_values_def)
  show ?thesis
    by (simp add: l d read_json_data_Some[OF l] read_json_data_Some[OF d] valid_query_def)
qed

theorem empty_json_document_page_size_zero_witness:
  "(2::nat) \<le> 900 \<and>
   read_json_data 900 (JList []) 3 10 =
     Some (JsonPage (JList []) 0 \<lparr>page = 1, page_size = 0, total = 0, has_next = False\<rparr>) \<and>
   read_json_data 900 (JDict []) 3 10 =
     Some (JsonPage (JDict []) 0 \<lparr>page = 1, page_size = 0, total = 0, has_next = False\<rparr>)"
  using empty_json_document_page_size_zero[of 900 3 10] by simp

text \<open>
  C1, as the code has it. A JSON document that the count gets through with the frames
  left, and whose total and second component are both at most 100, is returned whole by
  the data handler, whatever page and page size are asked for; the envelope says page 1,
  a page size and a total equal to the item count, and that no page follows. A document
  that needs more frames than are left gets the failure of the handler, status 500.
\<close>

theorem json_bypass_returns_whole_document:
  assumes "suffix_of item_path = ''.json''"
    and "json_load env item_path = Inr json_data"
  shows "(frames_needed json_data \<le> free_frames env \<and>
          spec_total json_data \<le> 100 \<and> nested_max json_data \<le> 100 \<longrightarrow>
            count_json_items (free_frames env) json_data =
              Some (spec_total json_data, nested_max json_data) \<and>
            read_file env item_path page_q page_size_q =
              Inr (JsonPage json_data (spec_total json_data)
                    \<lparr>page = 1, page_size = spec_total json_data,
                     total = spec_total json_data, has_next = False\<rparr>)) \<and>
         (free_frames env < frames_needed json_data \<longrightarrow>
            read_file env item_path page_q page_size_q =
              Inl (HTTPException 500
                    (''Error reading file: '' @ recursion_text env json_data)))"
proof (intro conjI impI)
  assume a: "frames_needed json_data \<le> free_frames env \<and>
          spec_total json_data \<le> 100 \<and> nested_max json_data \<le> 100"
  then show c: "count_json_items (free_frames env) json_data =
              Some (spec_total json_data, nested_max json_data)"
    by (simp add: count_json_items_fits)
  show "read_file env item_path page_q page_size_q =
              Inr (JsonPage json_data (spec_total json_data)
                    \<lparr>page = 1, page_size = spec_total json_data,
                     total = spec_total json_data, has_next = False\<rparr>)"
    using a by (simp add: read_file_json[OF assms] read_json_data_Some[OF c])
next
  assume "free_frames env < frames_needed json_data"
  then have "read_json_data (free_frames env) json_data page_q page_size_q = None"
    by (simp add: read_json_data_def count_json_items_deep)
  then show "read_file env item_path page_q page_size_q =
              Inl (HTTPException 500
                    (''Error reading file: '' @ recursion_text env json_data))"
    by (simp add: read_file_json[OF assms])
qed

text \<open>
  C1 as claimed speaks of every document with a total and a largest nested count of at
  most 100. The number 1 inside 500 mappings has the total 1 and needs 1001 frames; with
  the 1000 frames of the default recursion limit the handler fails.
\<close>

lemma spec_total_nest: "spec_total (nest n (JInt 1)) = 1"
  by (induction n) simp_all

lemma frames_needed_nest: "frames_needed (nest n (JInt 1)) = 2 * n + 1"
  by (induction n) simp_all

lemma deep_document_facts:
  "spec_total deep_document = 1" "frames_needed deep_document = 1001"
  "spec_max_nested deep_document = 1" "nested_max deep_document = 1"
proof -
  show "spec_total deep_document = 1" by (simp add: deep_document_def spec_total_nest)
  show "frames_needed deep_document = 1001" by (simp add: deep_document_def frames_needed_nest)
  have d: "deep_document = JDict [(''a'', nest 499 (JInt 1))]"
    unfolding deep_document_def by (simp add: eval_nat_numeral)
  show "spec_max_nested deep_document = 1"
    unfolding d by (simp add: spec_max_nested_def dict_values_def spec_total_nest)
  have "is_collection (nest 499 (JInt 1))" by (simp add: eval_nat_numeral)
  then show "nested_max deep_document = 1"
    unfolding d by (simp add: nested_max_def dict_values_def spec_total_nest)
qed

lemma deep_suffix: "suffix_of [''/'', ''data'', ''deep.json''] = ''.json''"
  by (simp add: suffix_of_def name_of_def is_anchor_def)

lemma deep_load: "json_load deep_env [''/'', ''data'', ''deep.json''] = Inr deep_document"
  by (simp add: deep_env_def)

lemma deep_env_fields:
  "free_frames deep_env = 1000"
  "recursion_text deep_env obj = ''maximum recursion depth exceeded''"
  by (simp_all add: deep_env_def sample_env_def)

theorem json_bypass_deep_document_counterexample:
  "spec_total deep_document \<le> 100 \<and> spec_max_nested deep_document \<le> 100 \<and>
   read_file deep_env [''/'', ''data'', ''deep.json''] 1 5 =
     Inl (HTTPException 500 ''Error reading file: maximum recursion depth exceeded'')"
proof -
  have "read_json_data (free_frames deep_env) deep_document 1 5 = None"
    by (simp add: read_json_data_def count_json_items_deep deep_env_fields deep_document_facts)
  then show ?thesis
    by (simp add: read_file_json[OF deep_suffix deep_load] deep_document_facts deep_env_fields)
qed

section \<open>Pages and slices\<close>

lemma py_slice_take_drop:
  assumes "0 \<le> start" "0 \<le> len"
  shows "py_slice xs start (start + len) = take (nat len) (drop (nat start) xs)"
proof (cases "start + len \<le> int (length xs)")
  case True
  then show ?thesis using assms
    by (simp add: py_slice_def slice_index_def Let_def min_def)
next
  case False
  show ?thesis
  proof (cases "start \<le> int (length xs)")
    case True
    with False assms have "nat len \<ge> length xs - nat start" by linarith
    with True False assms show ?thesis
      by (simp add: py_slice_def slice_index_def Let_def min_def nat_diff_distrib)
  next
    case F2: False
    with False assms show ?thesis
      by (simp add: py_slice_def slice_index_def Let_def min_def)
  qed
qed

lemma length_py_slice:
  assumes "0 \<le> start" "0 \<le> len"
  shows "int (length (py_slice xs start (start + len))) = min len (max 0 (int (length xs) - start))"
  using assms by (auto simp: py_slice_take_drop min_def max_def)

lemma offset_nonneg: "valid_query page_q page_size_q \<Longrightarrow> 0 \<le> (page_q - 1) * page_size_q"
  by (simp add: valid_query_def)

lemma read_json_data_paged:
  assumes "count_json_items frames json_data = Some (t, m)"
    and "\<not> (t \<le> 100 \<and> m \<le> 100)"
  shows "read_json_data frames json_data page_q page_size_q =
     Some (JsonPage (JList (py_slice (as_data_list json_data) ((page_q - 1) * page_size_q)
                             ((page_q - 1) * page_size_q + page_size_q)))
             (int (length (py_slice (as_data_list json_data) ((page_q - 1) * page_size_q)
                             ((page_q - 1) * page_size_q + page_size_q))))
             \<lparr>page = page_q, page_size = page_size_q,
              total = int (length (as_data_list json_data)),
              has_next = ((page_q - 1) * page_size_q + page_size_q
                            < int (length (as_data_list json_data)))\<rparr>)"
  unfolding read_json_data_Some[OF assms(1)] Let_def using assms(2) by (simp only: if_False)

lemma json_page_invariant:
  assumes "valid_query page_q page_size_q"
    and "count_json_items frames json_data = Some (t, m)"
    and "\<not> (t \<le> 100 \<and> m \<le> 100)"
  shows "\<exists>r. read_json_data frames json_data page_q page_size_q = Some r \<and>
           page_invariant r \<and> page (pagination r) = page_q \<and>
           page_size (pagination r) = page_size_q \<and>
           (\<exists>items. data r = JList items \<and> count r = int (length items))"
proof -
  have ps: "0 \<le> page_size_q" using assms(1) by (simp add: valid_query_def)
  show ?thesis
    unfolding read_json_data_paged[OF assms(2,3)] page_invariant_def Let_def
    using length_py_slice[OF offset_nonneg[OF assms(1)] ps]
    by simp
qed

lemma columns_page_invariant:
  assumes "valid_query page_q page_size_q"
  shows "page_invariant (columns_page columns_info page_q page_size_q)"
proof -
  have ps: "0 \<le> page_size_q" using assms(1) by (simp add: valid_query_def)
  show ?thesis
    unfolding columns_page_def page_invariant_def Let_def
    using length_py_slice[OF offset_nonneg[OF assms(1)] ps]
    by simp
qed

lemma get_column_info_Inr:
  assumes "get_column_info env item_path page_q page_size_q = Inr r"
  shows "\<exists>columns_info. r = columns_page columns_info page_q page_size_q"
  using assms
  by (auto simp: get_column_info_def get_column_info_try_def split: sum.splits)

lemma get_parquet_folder_column_info_Inr:
  assumes "get_parquet_folder_column_info env item_path page_q page_size_q = Inr r"
  shows "\<exists>columns_info. r = columns_page columns_info page_q page_size_q"
  using assms
  by (auto simp: get_parquet_folder_column_info_def get_parquet_folder_column_info_try_def
           split: sum.splits)

lemma columns_page_fields:
  "page (pagination (columns_page cs page_q page_size_q)) = page_q \<and>
   page_size (pagination (columns_page cs page_q page_size_q)) = page_size_q \<and>
   count (columns_page cs page_q page_size_q) = int (length (columns (columns_page cs page_q page_size_q)))"
  by (simp add: columns_page_def Let_def)

lemma last_page_offset:
  fixes N p :: int
  assumes "0 < p" "0 < N"
  shows "(\<lceil>real_of_int N / real_of_int p\<rceil> - 1) * p = N - (if N mod p = 0 then p else N mod p)"
proof -
  have c: "\<lceil>real_of_int N / real_of_int p\<rceil> = - (- N div p)"
    by (rule ceiling_divide_eq_div)
  show ?thesis
  proof (cases "N mod p = 0")
    case True
    then have "p dvd N" by auto
    then have "- N div p = - (N div p)" by (simp add: dvd_neg_div)
    moreover have "N div p * p = N" using True by auto
    ultimately show ?thesis using True c by (simp add: algebra_simps)
  next
    case False
    then have "- N div p = - (N div p) - 1"
      using assms by (simp add: zdiv_zminus1_eq_if)
    with c have c': "\<lceil>real_of_int N / real_of_int p\<rceil> = N div p + 1" by simp
    have "N div p * p = N - N mod p" by (simp add: algebra_simps minus_mod_eq_mult_div)
    then show ?thesis using False unfolding c' by simp
  qed
qed

section \<open>Facts about the sample environment\<close>

lemma sample_env_frames: "free_frames sample_env = 900"
  by (simp add: sample_env_def)

lemma sample_suffix_b: "suffix_of [''/'', ''data'', ''b.json''] = ''.json''"
  by (simp add: suffix_of_def name_of_def is_anchor_def)

lemma sample_load_b: "json_load sample_env [''/'', ''data'', ''b.json''] = Inr (JList [JInt 1, JInt 2])"
  by (simp add: sample_env_def)

lemma sample_suffix_big: "suffix_of [''/'', ''data'', ''Big List.json''] = ''.json''"
  by (simp add: suffix_of_def name_of_def is_anchor_def)

lemma sample_suffix_csv: "suffix_of [''/'', ''data'', ''a.csv''] = ''.csv''"
  by (simp add: suffix_of_def name_of_def is_anchor_def)

lemma sample_load_big: "json_load sample_env [''/'', ''data'', ''Big List.json''] = Inr (JList (replicate 101 JNull))"
  by (simp add: sample_env_def)

lemma frames_needed_nulls: "frames_needed (JList (replicate n JNull)) \<le> 3"
proof -
  have "fold max (map frames_needed (replicate n JNull)) 0 \<le> 1"
    unfolding fold_max_le by simp
  then show ?thesis by simp
qed

lemma count_big: "count_json_items 900 (JList (replicate 101 JNull)) = Some (202, 101)"
proof -
  have "frames_needed (JList (replicate 101 JNull)) \<le> 900"
    using frames_needed_nulls[of 101] by linarith
  then show ?thesis
    by (simp add: count_json_items_fits nested_max_def sum_list_replicate)
qed

theorem json_bypass_returns_whole_document_witness:
  "suffix_of [''/'', ''data'', ''b.json''] = ''.json'' \<and>
   json_load sample_env [''/'', ''data'', ''b.json''] = Inr (JList [JInt 1, JInt 2]) \<and>
   frames_needed (JList [JInt 1, JInt 2]) \<le> free_frames sample_env \<and>
   read_file sample_env [''/'', ''data'', ''b.json''] 2 5 =
     Inr (JsonPage (JList [JInt 1, JInt 2]) 4
           \<lparr>page = 1, page_size = 4, total = 4, has_next = False\<rparr>)"
  using json_bypass_returns_whole_document[OF sample_suffix_b sample_load_b, of 2 5]
  by (simp add: sample_suffix_b sample_load_b sample_env_frames nested_max_def)

section \<open>The envelope of a page\<close>

text \<open>
  C3. For a page and a page size that the serving layer lets through, the JSON handler
  outside the bypass (the count returned, and the total or the second component is above
  100) and the two schema handlers, whenever they answer, return an envelope with
  \<open>has_next = (offset + page_size < total)\<close> and
  \<open>count = min page_size (max 0 (total - offset))\<close>, where \<open>offset = (page - 1) * page_size\<close>;
  the envelope carries the page and the page size of the request, and the count is the
  number of entries returned.
\<close>

theorem page_result_invariant:
  assumes "valid_query page_q page_size_q"
  shows "(suffix_of json_path = ''.json'' \<and> json_load env json_path = Inr json_data \<and>
          count_json_items (free_frames env) json_data = Some (t, m) \<and>
          \<not> (t \<le> 100 \<and> m \<le> 100)
          \<longrightarrow> (\<exists>r. read_file env json_path page_q page_size_q = Inr r \<and> page_invariant r \<and>
                   page (pagination r) = page_q \<and> page_size (pagination r) = page_size_q \<and>
                   (\<exists>items. data r = JList items \<and> count r = int (length items)))) \<and>
         (\<forall>r. get_column_info env file_path page_q page_size_q = Inr r
          \<longrightarrow> page_invariant r \<and> page (pagination r) = page_q \<and>
              page_size (pagination r) = page_size_q \<and> count r = int (length (columns r))) \<and>
         (\<forall>r. get_parquet_folder_column_info env folder_path page_q page_size_q = Inr r
          \<longrightarrow> page_invariant r \<and> page (pagination r) = page_q \<and>
              page_size (pagination r) = page_size_q \<and> count r = int (length (columns r)))"
proof (intro conjI impI allI)
  assume a: "suffix_of json_path = ''.json'' \<and> json_load env json_path = Inr json_data \<and>
          count_json_items (free_frames env) json_data = Some (t, m) \<and>
          \<not> (t \<le> 100 \<and> m \<le> 100)"
  then have s: "suffix_of json_path = ''.json''" and l: "json_load env json_path = Inr json_data"
    and c: "count_json_items (free_frames env) json_data = Some (t, m)"
    and nb: "\<not> (t \<le> 100 \<and> m \<le> 100)"
    by blast+
  obtain r where r: "read_json_data (free_frames env) json_data page_q page_size_q = Some r"
    "page_invariant r" "page (pagination r) = page_q" "page_size (pagination r) = page_size_q"
    "\<exists>items. data r = JList items \<and> count r = int (length items)"
    using json_page_invariant[OF assms c nb] by blast
  have "read_file env json_path page_q page_size_q = Inr r"
    by (simp add: read_file_json[OF s l] r(1))
  with r show "\<exists>r. read_file env json_path page_q page_size_q = Inr r \<and> page_invariant r \<and>
                   page (pagination r) = page_q \<and> page_size (pagination r) = page_size_q \<and>
                   (\<exists>items. data r = JList items \<and> count r = int (length items))"
    by blast
next
  fix r assume "get_column_info env file_path page_q page_size_q = Inr r"
  then obtain cs where r: "r = columns_page cs page_q page_size_q"
    using get_column_info_Inr by blast
  show "page_invariant r" "page (pagination r) = page_q" "page_size (pagination r) = page_size_q"
    "count r = int (length (columns r))"
    using columns_page_invariant[OF assms] columns_page_fields unfolding r by blast+
next
  fix r assume "get_parquet_folder_column_info env folder_path page_q page_size_q = Inr r"
  then obtain cs where r: "r = columns_page cs page_q page_size_q"
    using get_parquet_folder_column_info_Inr by blast
  show "page_invariant r" "page (pagination r) = page_q" "page_size (pagination r) = page_size_q"
    "count r = int (length (columns r))"
    using columns_page_invariant[OF assms] columns_page_fields unfolding r by blast+
qed

lemma str_int_1: "str_int 1 = ''1''"
  by (simp add: str_int_def str_nat.simps digit_char_def)

lemma sample_file_columns:
  "describe_columns sample_env (''SELECT * FROM '' @ csv_source [''/'', ''data'', ''a.csv''] @ '' LIMIT 1'')
     (file_example_query (''SELECT * FROM '' @ csv_source [''/'', ''data'', ''a.csv''] @ '' LIMIT 1'')) =
   Inr [\<lparr>column_name = ''id'', data_type = ''BIGINT'', example_value = ''1''\<rparr>,
        \<lparr>column_name = ''name'', data_type = ''VARCHAR'', example_value = ''x''\<rparr>]"
  by (simp add: describe_columns_def column_descriptor_def sample_env_def sample_execute_def sample_result_def
        file_example_query_def str_int_1)

lemma sample_get_column_info:
  "get_column_info sample_env [''/'', ''data'', ''a.csv''] 2 1 =
     Inr (SchemaPage [\<lparr>column_name = ''name'', data_type = ''VARCHAR'', example_value = ''x''\<rparr>] 1
           \<lparr>page = 2, page_size = 1, total = 2, has_next = False\<rparr>)"
proof -
  have pq: "probe_query [''/'', ''data'', ''a.csv''] =
              Inr (''SELECT * FROM '' @ csv_source [''/'', ''data'', ''a.csv''] @ '' LIMIT 1'')"
    by (simp add: probe_query_def sample_suffix_csv)
  show ?thesis
    unfolding get_column_info_def get_column_info_try_def pq sum.case sample_file_columns
    by (simp add: columns_page_def py_slice_def slice_index_def Let_def)
qed

lemma sample_folder_columns:
  "describe_columns sample_env
     (''SELECT * FROM '' @ sq @ parquet_pattern [''/'', ''data'', ''shards''] @ sq @ '' LIMIT 1'')
     (folder_example_query [''/'', ''data'', ''shards'']) =
   Inr [\<lparr>column_name = ''id'', data_type = ''BIGINT'', example_value = ''1''\<rparr>,
        \<lparr>column_name = ''name'', data_type = ''VARCHAR'', example_value = ''x''\<rparr>]"
  by (simp add: describe_columns_def column_descriptor_def sample_env_def sample_execute_def sample_result_def
        folder_example_query_def str_int_1)

lemma sample_get_parquet_folder_column_info:
  "get_parquet_folder_column_info sample_env [''/'', ''data'', ''shards''] 2 1 =
     Inr (SchemaPage [\<lparr>column_name = ''name'', data_type = ''VARCHAR'', example_value = ''x''\<rparr>] 1
           \<lparr>page = 2, page_size = 1, total = 2, has_next = False\<rparr>)"
  unfolding get_parquet_folder_column_info_def get_parquet_folder_column_info_try_def
    sample_folder_columns sum.case
  by (simp add: columns_page_def py_slice_def slice_index_def Let_def)


theorem page_result_invariant_witness:
  "valid_query 2 1 \<and>
   count_json_items (free_frames sample_env) (JList (replicate 101 JNull)) = Some (202, 101) \<and>
   (\<exists>r. read_file sample_env [''/'', ''data'', ''Big List.json''] 2 1 = Inr r \<and> page_invariant r \<and>
        page (pagination r) = 2 \<and> page_size (pagination r) = 1 \<and>
        (\<exists>items. data r = JList items \<and> count r = int (length items))) \<and>
   page_invariant
     (SchemaPage [\<lparr>column_name = ''name'', data_type = ''VARCHAR'', example_value = ''x''\<rparr>] 1
       \<lparr>page = 2, page_size = 1, total = 2, has_next = False\<rparr>)"
proof -
  have v: "valid_query 2 1" by (simp add: valid_query_def)
  show ?thesis
    using page_result_invariant[OF v, of "[''/'', ''data'', ''Big List.json'']" sample_env
            "JList (replicate 101 JNull)" 202 101 "[''/'', ''data'', ''a.csv'']"
            "[''/'', ''data'', ''shards'']"] v
    by (simp add: sample_suffix_big sample_load_big count_big sample_env_frames
          sample_get_column_info sample_get_parquet_folder_column_info)
qed

text \<open>
  C4, as the code has it. For a JSON file holding a list of \<open>N > 100\<close> items and a page
  size \<open>p\<close> from 1 to 1000: when the frames left cover those the count needs, the count is
  \<open>(total, N)\<close>, the bypass does not apply, and page \<open>\<lceil>N / p\<rceil>\<close> holds the last \<open>N mod p\<close>
  items (the last \<open>p\<close> when \<open>p\<close> divides \<open>N\<close>) with total \<open>N\<close> and no next page; when the
  list needs more frames, every page of it is the failure of the handler, status 500.
\<close>

theorem json_list_last_page:
  assumes "suffix_of item_path = ''.json''"
    and "json_load env item_path = Inr (JList xs)"
    and "100 < length xs"
    and "1 \<le> p" and "p \<le> 1000"
  shows "(frames_needed (JList xs) \<le> free_frames env \<longrightarrow>
           (let N = int (length xs);
                last_page = \<lceil>real_of_int N / real_of_int p\<rceil>;
                k = (if N mod p = 0 then p else N mod p)
            in count_json_items (free_frames env) (JList xs) = Some (spec_total (JList xs), N) \<and>
               \<not> (spec_total (JList xs) \<le> 100 \<and> N \<le> 100) \<and>
               read_file env item_path last_page p =
                 Inr (JsonPage (JList (drop (nat (N - k)) xs)) k
                       \<lparr>page = last_page, page_size = p, total = N, has_next = False\<rparr>) \<and>
               int (length (drop (nat (N - k)) xs)) = k)) \<and>
         (free_frames env < frames_needed (JList xs) \<longrightarrow>
            read_file env item_path page_q p =
              Inl (HTTPException 500
                    (''Error reading file: '' @ recursion_text env (JList xs))))"
proof (intro conjI impI)
  assume fits: "frames_needed (JList xs) \<le> free_frames env"
  define N where "N = int (length xs)"
  define k where "k = (if N mod p = 0 then p else N mod p)"
  define last_page where "last_page = \<lceil>real_of_int N / real_of_int p\<rceil>"
  have N100: "100 < N" using assms(3) by (simp add: N_def)
  then have Npos: "0 < N" "100 < N" by simp_all
  have ppos: "0 < p" using assms(4) by simp
  have off: "(last_page - 1) * p = N - k"
    unfolding last_page_def k_def by (rule last_page_offset[OF ppos Npos(1)])
  have modb: "0 \<le> N mod p" "N mod p < p" using ppos by simp_all
  have "N mod p \<le> N" using Npos ppos by (simp add: zmod_le_nonneg_dividend)
  moreover have "N mod p = 0 \<Longrightarrow> p \<le> N"
    using Npos(1) by (auto intro: zdvd_imp_le)
  ultimately have kb: "0 < k" "k \<le> p" "k \<le> N"
    using modb ppos by (auto simp: k_def le_less)
  have c: "count_json_items (free_frames env) (JList xs) = Some (spec_total (JList xs), N)"
    unfolding count_json_items_fits[OF fits] by (simp add: nested_max_def N_def)
  have nb: "\<not> (spec_total (JList xs) \<le> 100 \<and> N \<le> 100)"
    using Npos by simp
  have offnn: "0 \<le> N - k" using kb by simp
  have pnn: "0 \<le> p" using ppos by simp
  have "length (drop (nat (N - k)) xs) \<le> nat p"
    using kb by (simp add: N_def)
  then have sl: "py_slice xs (N - k) (N - k + p) = drop (nat (N - k)) xs"
    unfolding py_slice_take_drop[OF offnn pnn] by (rule take_all)
  have len: "int (length (drop (nat (N - k)) xs)) = k"
    using kb by (simp add: N_def)
  have rj: "read_json_data (free_frames env) (JList xs) last_page p =
               Some (JsonPage (JList (drop (nat (N - k)) xs)) k
                     \<lparr>page = last_page, page_size = p, total = N, has_next = False\<rparr>)"
    using kb len
    by (simp add: read_json_data_paged[OF c nb] off sl N_def[symmetric])
  have rf: "read_file env item_path last_page p =
               Inr (JsonPage (JList (drop (nat (N - k)) xs)) k
                     \<lparr>page = last_page, page_size = p, total = N, has_next = False\<rparr>)"
    by (simp add: read_file_json[OF assms(1,2)] rj)
  show "(let N = int (length xs);
                last_page = \<lceil>real_of_int N / real_of_int p\<rceil>;
                k = (if N mod p = 0 then p else N mod p)
            in count_json_items (free_frames env) (JList xs) = Some (spec_total (JList xs), N) \<and>
               \<not> (spec_total (JList xs) \<le> 100 \<and> N \<le> 100) \<and>
               read_file env item_path last_page p =
                 Inr (JsonPage (JList (drop (nat (N - k)) xs)) k
                       \<lparr>page = last_page, page_size = p, total = N, has_next = False\<rparr>) \<and>
               int (length (drop (nat (N - k)) xs)) = k)"
    unfolding Let_def N_def[symmetric] k_def[symmetric] last_page_def[symmetric]
    using c nb rf len by simp
next
  assume "free_frames env < frames_needed (JList xs)"
  then have "read_json_data (free_frames env) (JList xs) page_q p = None"
    by (simp add: read_json_data_def count_json_items_deep)
  then show "read_file env item_path page_q p =
              Inl (HTTPException 500
                    (''Error reading file: '' @ recursion_text env (JList xs)))"
    by (simp add: read_file_json[OF assms(1,2)])
qed

theorem json_list_last_page_witness:
  "frames_needed (JList (replicate 101 JNull)) \<le> free_frames sample_env \<and>
   read_file sample_env [''/'', ''data'', ''Big List.json''] 11 10 =
     Inr (JsonPage (JList [JNull]) 1 \<lparr>page = 11, page_size = 10, total = 101, has_next = False\<rparr>)"
proof -
  have f: "frames_needed (JList (replicate 101 JNull)) \<le> free_frames sample_env"
    using frames_needed_nulls[of 101] unfolding sample_env_frames by linarith
  show ?thesis
    using json_list_last_page[of "[''/'', ''data'', ''Big List.json'']" sample_env
            "replicate 101 JNull" 10 1, OF sample_suffix_big sample_load_big] f
    by (simp add: Let_def)
qed

text \<open>
  C4 as claimed speaks of every list of more than 100 items. A list of 101 items whose
  first item is the number 1 inside 500 mappings needs 1003 frames; with the 1000 frames
  of the default recursion limit its last page is a failure with status 500.
\<close>

lemma deep_list_suffix: "suffix_of [''/'', ''data'', ''deep_list.json''] = ''.json''"
  by (simp add: suffix_of_def name_of_def is_anchor_def)

lemma deep_list_load: "json_load deep_env [''/'', ''data'', ''deep_list.json''] = Inr (JList deep_list)"
  by (simp add: deep_env_def)

lemma deep_list_frames: "free_frames deep_env < frames_needed (JList deep_list)"
proof -
  have "frames_needed deep_document \<le> fold max (map frames_needed deep_list) 0"
    using fold_max_le[of "map frames_needed deep_list" 0 "fold max (map frames_needed deep_list) 0"]
    by (simp add: deep_list_def)
  then show ?thesis by (simp add: deep_env_fields deep_document_facts)
qed

theorem json_list_deep_element_counterexample:
  "suffix_of [''/'', ''data'', ''deep_list.json''] = ''.json'' \<and>
   json_load deep_env [''/'', ''data'', ''deep_list.json''] = Inr (JList deep_list) \<and>
   100 < length deep_list \<and>
   read_file deep_env [''/'', ''data'', ''deep_list.json''] 11 10 =
     Inl (HTTPException 500 ''Error reading file: maximum recursion depth exceeded'')"
proof -
  have "read_json_data (free_frames deep_env) (JList deep_list) 11 10 = None"
    using deep_list_frames by (simp add: read_json_data_def count_json_items_deep)
  then show ?thesis
    by (simp add: read_file_json[OF deep_list_suffix deep_list_load] deep_list_suffix
          deep_list_load deep_env_fields deep_list_def)
qed

section \<open>The resource key\<close>

lemma replace_single:
  "replace s [a] [b] = map (\<lambda>c. if c = a then b else c) s"
proof (induction s)
  case Nil
  show ?case by (simp add: replace.simps)
next
  case (Cons x s)
  show ?case by (subst replace.simps) (simp add: Cons)
qed

lemma separators_idem:
  "replace (replace (replace (replace s '' '' ''_'') ''-'' ''_'') '' '' ''_'') ''-'' ''_'' =
   replace (replace s '' '' ''_'') ''-'' ''_''"
  by (simp add: replace_single)

lemma sample_lower_char_upper:
  assumes "CHR ''A'' \<le> c" "c \<le> CHR ''Z''"
  shows "\<not> (CHR ''A'' \<le> sample_lower_char c \<and> sample_lower_char c \<le> CHR ''Z'')"
    and "sample_lower_char c \<noteq> CHR '' ''" and "sample_lower_char c \<noteq> CHR ''-''"
    and "sample_lower_char c \<noteq> CHR ''_''"
proof -
  have b: "65 \<le> (of_char c :: nat)" "(of_char c :: nat) \<le> 90"
    using assms by (simp_all add: less_eq_char_def)
  then have v: "(of_char (sample_lower_char c) :: nat) = of_char c + 32"
    using assms by (simp add: sample_lower_char_def)
  show "\<not> (CHR ''A'' \<le> sample_lower_char c \<and> sample_lower_char c \<le> CHR ''Z'')"
    using v b by (simp add: less_eq_char_def)
  show "sample_lower_char c \<noteq> CHR '' ''"
  proof
    assume "sample_lower_char c = CHR '' ''"
    then have "(of_char (sample_lower_char c) :: nat) = 32" by simp
    with v b show False by simp
  qed
  show "sample_lower_char c \<noteq> CHR ''-''"
  proof
    assume "sample_lower_char c = CHR ''-''"
    then have "(of_char (sample_lower_char c) :: nat) = 45" by simp
    with v b show False by simp
  qed
  show "sample_lower_char c \<noteq> CHR ''_''"
  proof
    assume "sample_lower_char c = CHR ''_''"
    then have "(of_char (sample_lower_char c) :: nat) = 95" by simp
    with v b show False by simp
  qed
qed

lemma sample_lower_char_id:
  "\<not> (CHR ''A'' \<le> c \<and> c \<le> CHR ''Z'') \<Longrightarrow> sample_lower_char c = c"
  unfolding sample_lower_char_def by (rule if_not_P)

lemma sample_lower_char_idem: "sample_lower_char (sample_lower_char c) = sample_lower_char c"
proof (cases "CHR ''A'' \<le> c \<and> c \<le> CHR ''Z''")
  case True
  then show ?thesis using sample_lower_char_upper(1)[of c] sample_lower_char_id by blast
next
  case False
  then show ?thesis by (simp add: sample_lower_char_id)
qed

lemma sample_lower_idem: "sample_lower (sample_lower s) = sample_lower s"
  by (simp add: sample_lower_def sample_lower_char_idem)

lemma sample_lower_char_separators:
  "sample_lower_char (if (if c = CHR '' '' then CHR ''_'' else c) = CHR ''-'' then CHR ''_''
                      else (if c = CHR '' '' then CHR ''_'' else c)) =
   (if (if sample_lower_char c = CHR '' '' then CHR ''_'' else sample_lower_char c) = CHR ''-''
    then CHR ''_'' else (if sample_lower_char c = CHR '' '' then CHR ''_'' else sample_lower_char c))"
proof (cases "CHR ''A'' \<le> c \<and> c \<le> CHR ''Z''")
  case True
  then have u: "CHR ''A'' \<le> c" "c \<le> CHR ''Z''" by simp_all
  have "c \<noteq> CHR '' ''" "c \<noteq> CHR ''-''" using u by (auto simp: less_eq_char_def)
  then show ?thesis using sample_lower_char_upper(2,3)[OF u] by simp
next
  case False
  then have l: "sample_lower_char c = c" by (rule sample_lower_char_id)
  have us: "sample_lower_char (CHR ''_'') = CHR ''_''" by (simp add: sample_lower_char_def)
  show ?thesis using l us by simp
qed

lemma sample_lower_separators:
  "sample_lower (replace (replace s '' '' ''_'') ''-'' ''_'') =
   replace (replace (sample_lower s) '' '' ''_'') ''-'' ''_''"
  by (simp add: replace_single sample_lower_def sample_lower_char_separators)

text \<open>
  C7. The key of a name is \<^verbatim>\<open>name.lower().replace(" ", "_").replace("-", "_")\<close>, a function
  of the name alone. \<^verbatim>\<open>str.lower\<close> follows the Unicode tables of the interpreter, which are
  a parameter here. For every lower-casing that changes nothing in a lower-cased string
  and that commutes with the replacement of spaces and hyphens by underscores, deriving
  the key of a key gives that key again.
\<close>

theorem make_item_name_idempotent:
  assumes "\<forall>s. lower (lower s) = lower s"
    and "\<forall>s. lower (replace (replace s '' '' ''_'') ''-'' ''_'') =
              replace (replace (lower s) '' '' ''_'') ''-'' ''_''"
  shows "make_item_name lower (make_item_name lower s) = make_item_name lower s"
proof -
  have "make_item_name lower (make_item_name lower s) =
          replace (replace (lower (replace (replace (lower s) '' '' ''_'') ''-'' ''_'')) '' '' ''_'')
            ''-'' ''_''"
    by (simp only: make_item_name_def)
  also have "\<dots> = replace (replace (replace (replace (lower (lower s)) '' '' ''_'') ''-'' ''_'')
                      '' '' ''_'') ''-'' ''_''"
    using assms(2) by (simp only:)
  also have "\<dots> = replace (replace (lower (lower s)) '' '' ''_'') ''-'' ''_''"
    by (rule separators_idem)
  also have "\<dots> = replace (replace (lower s) '' '' ''_'') ''-'' ''_''"
    using assms(1) by (simp only:)
  finally show ?thesis by (simp only: make_item_name_def)
qed

theorem make_item_name_idempotent_witness:
  "(\<forall>s. sample_lower (sample_lower s) = sample_lower s) \<and>
   (\<forall>s. sample_lower (replace (replace s '' '' ''_'') ''-'' ''_'') =
        replace (replace (sample_lower s) '' '' ''_'') ''-'' ''_'') \<and>
   make_item_name sample_lower ''My File-A.csv'' = ''my_file_a.csv'' \<and>
   make_item_name sample_lower (make_item_name sample_lower ''My File-A.csv'') = ''my_file_a.csv''"
proof -
  have v: "make_item_name sample_lower ''My File-A.csv'' = ''my_file_a.csv''"
    by code_simp
  show ?thesis
    using make_item_name_idempotent[of sample_lower "''My File-A.csv''"]
    by (simp add: sample_lower_idem sample_lower_separators v)
qed

section \<open>Schema introspection\<close>

lemma columns_loop_Inr:
  assumes "columns_loop env mk descs acc = Inr infos"
  shows "\<exists>new. infos = acc @ new \<and> length new = length descs \<and>
           (\<forall>i < length descs. column_descriptor env mk (descs ! i) = Inr (new ! i))"
  using assms
proof (induction descs arbitrary: acc)
  case Nil
  then show ?case by simp
next
  case (Cons desc descs)
  from Cons.prems obtain info where i: "column_descriptor env mk desc = Inr info"
    and l: "columns_loop env mk descs (acc @ [info]) = Inr infos"
    by (auto split: sum.splits)
  from Cons.IH[OF l] obtain new where n: "infos = (acc @ [info]) @ new" "length new = length descs"
    "\<forall>i < length descs. column_descriptor env mk (descs ! i) = Inr (new ! i)" by blast
  have "\<forall>i < length (desc # descs). column_descriptor env mk ((desc # descs) ! i) = Inr ((info # new) ! i)"
    using i n(3) by (auto simp: nth_Cons split: nat.splits)
  then show ?case using n(1,2) by (intro exI[of _ "info # new"]) simp
qed

lemma column_descriptor_Inr:
  assumes "column_descriptor env mk desc = Inr info"
  shows "\<exists>result. execute env (mk (fst desc)) = Inr result \<and>
           column_name info = fst desc \<and>
           data_type info = (case snd desc of Some t \<Rightarrow> t | None \<Rightarrow> ''unknown'') \<and>
           example_value info =
             (case example_of (rows result) of Null \<Rightarrow> ''NULL'' | c \<Rightarrow> str_cell c)"
  using assms
  by (auto simp: column_descriptor_def Let_def split: sum.splits cell.splits)

lemma describe_columns_Inr:
  assumes "describe_columns env query mk = Inr infos"
  shows "\<exists>probe descs. execute env query = Inr probe \<and> description probe = Some descs \<and>
           length infos = length descs \<and>
           (\<forall>i < length descs. \<exists>result.
              execute env (mk (fst (descs ! i))) = Inr result \<and>
              column_name (infos ! i) = fst (descs ! i) \<and>
              data_type (infos ! i) = (case snd (descs ! i) of Some t \<Rightarrow> t | None \<Rightarrow> ''unknown'') \<and>
              example_value (infos ! i) =
                (case example_of (rows result) of Null \<Rightarrow> ''NULL'' | c \<Rightarrow> str_cell c))"
proof -
  from assms obtain probe descs where p: "execute env query = Inr probe"
    "description probe = Some descs" "columns_loop env mk descs [] = Inr infos"
    by (auto simp: describe_columns_def split: sum.splits option.splits)
  from columns_loop_Inr[OF p(3)] have l: "length infos = length descs"
    and d: "\<forall>i < length descs. column_descriptor env mk (descs ! i) = Inr (infos ! i)"
    by auto
  show ?thesis
    using p(1,2) l d column_descriptor_Inr by blast
qed

lemma get_column_info_columns:
  assumes "get_column_info env item_path page_q page_size_q = Inr r"
  shows "\<exists>query infos. probe_query item_path = Inr query \<and>
           describe_columns env query (file_example_query query) = Inr infos \<and>
           r = columns_page infos page_q page_size_q"
  using assms
  by (auto simp: get_column_info_def get_column_info_try_def split: sum.splits)

lemma get_parquet_folder_column_info_columns:
  assumes "get_parquet_folder_column_info env item_path page_q page_size_q = Inr r"
  shows "\<exists>infos.
           describe_columns env
             (''SELECT * FROM '' @ sq @ parquet_pattern item_path @ sq @ '' LIMIT 1'')
             (folder_example_query item_path) = Inr infos \<and>
           r = columns_page infos page_q page_size_q"
  using assms
  by (auto simp: get_parquet_folder_column_info_def get_parquet_folder_column_info_try_def
           split: sum.splits)

lemma columns_page_parts:
  "total (pagination (columns_page infos page_q page_size_q)) = int (length infos) \<and>
   columns (columns_page infos page_q page_size_q) =
     py_slice infos ((page_q - 1) * page_size_q) ((page_q - 1) * page_size_q + page_size_q)"
  by (simp add: columns_page_def Let_def)

text \<open>
  C8, as the code has it. When a schema handler answers, the probe gave the column
  descriptions, there is one descriptor per described column, in that order, and the
  page is a slice of them with the column count as total. The example value of a column
  is the text of the first value of the first row that its single-column
  \<^verbatim>\<open>LIMIT 1\<close> query returns, or \<^verbatim>\<open>"NULL"\<close> when the query returns no row, an empty row or
  a null there.
\<close>

theorem schema_example_values:
  "(get_column_info env file_path page_q page_size_q = Inr r \<longrightarrow>
      (\<exists>query probe descs infos.
         probe_query file_path = Inr query \<and> execute env query = Inr probe \<and>
         description probe = Some descs \<and> length infos = length descs \<and>
         total (pagination r) = int (length descs) \<and>
         columns r = py_slice infos ((page_q - 1) * page_size_q)
                       ((page_q - 1) * page_size_q + page_size_q) \<and>
         (\<forall>i < length descs. \<exists>result.
            execute env (file_example_query query (fst (descs ! i))) = Inr result \<and>
            column_name (infos ! i) = fst (descs ! i) \<and>
            data_type (infos ! i) = (case snd (descs ! i) of Some t \<Rightarrow> t | None \<Rightarrow> ''unknown'') \<and>
            example_value (infos ! i) =
              (case example_of (rows result) of Null \<Rightarrow> ''NULL'' | c \<Rightarrow> str_cell c)))) \<and>
   (get_parquet_folder_column_info env folder_path page_q page_size_q = Inr r' \<longrightarrow>
      (\<exists>probe descs infos.
         execute env (''SELECT * FROM '' @ sq @ parquet_pattern folder_path @ sq @ '' LIMIT 1'')
           = Inr probe \<and>
         description probe = Some descs \<and> length infos = length descs \<and>
         total (pagination r') = int (length descs) \<and>
         columns r' = py_slice infos ((page_q - 1) * page_size_q)
                        ((page_q - 1) * page_size_q + page_size_q) \<and>
         (\<forall>i < length descs. \<exists>result.
            execute env (folder_example_query folder_path (fst (descs ! i))) = Inr result \<and>
            column_name (infos ! i) = fst (descs ! i) \<and>
            data_type (infos ! i) = (case snd (descs ! i) of Some t \<Rightarrow> t | None \<Rightarrow> ''unknown'') \<and>
            example_value (infos ! i) =
              (case example_of (rows result) of Null \<Rightarrow> ''NULL'' | c \<Rightarrow> str_cell c))))"
proof (intro conjI impI)
  assume "get_column_info env file_path page_q page_size_q = Inr r"
  from get_column_info_columns[OF this] obtain query infos where
    q: "probe_query file_path = Inr query"
    and d: "describe_columns env query (file_example_query query) = Inr infos"
    and r: "r = columns_page infos page_q page_size_q" by blast
  from describe_columns_Inr[OF d] obtain probe descs where
    p: "execute env query = Inr probe" "description probe = Some descs"
       "length infos = length descs"
    and e: "\<forall>i < length descs. \<exists>result.
              execute env (file_example_query query (fst (descs ! i))) = Inr result \<and>
              column_name (infos ! i) = fst (descs ! i) \<and>
              data_type (infos ! i) = (case snd (descs ! i) of Some t \<Rightarrow> t | None \<Rightarrow> ''unknown'') \<and>
              example_value (infos ! i) =
                (case example_of (rows result) of Null \<Rightarrow> ''NULL'' | c \<Rightarrow> str_cell c)"
    by blast
  have "total (pagination r) = int (length descs)"
    and "columns r = py_slice infos ((page_q - 1) * page_size_q)
                       ((page_q - 1) * page_size_q + page_size_q)"
    using columns_page_parts[of infos page_q page_size_q] p(3) unfolding r by simp_all
  with q p e
  show "\<exists>query probe descs infos.
         probe_query file_path = Inr query \<and> execute env query = Inr probe \<and>
         description probe = Some descs \<and> length infos = length descs \<and>
         total (pagination r) = int (length descs) \<and>
         columns r = py_slice infos ((page_q - 1) * page_size_q)
                       ((page_q - 1) * page_size_q + page_size_q) \<and>
         (\<forall>i < length descs. \<exists>result.
            execute env (file_example_query query (fst (descs ! i))) = Inr result \<and>
            column_name (infos ! i) = fst (descs ! i) \<and>
            data_type (infos ! i) = (case snd (descs ! i) of Some t \<Rightarrow> t | None \<Rightarrow> ''unknown'') \<and>
            example_value (infos ! i) =
              (case example_of (rows result) of Null \<Rightarrow> ''NULL'' | c \<Rightarrow> str_cell c))"
    by blast
next
  assume "get_parquet_folder_column_info env folder_path page_q page_size_q = Inr r'"
  from get_parquet_folder_column_info_columns[OF this] obtain infos where
    d: "describe_columns env
             (''SELECT * FROM '' @ sq @ parquet_pattern folder_path @ sq @ '' LIMIT 1'')
             (folder_example_query folder_path) = Inr infos"
    and r: "r' = columns_page infos page_q page_size_q" by blast
  from describe_columns_Inr[OF d] obtain probe descs where
    p: "execute env (''SELECT * FROM '' @ sq @ parquet_pattern folder_path @ sq @ '' LIMIT 1'')
          = Inr probe" "description probe = Some descs"
       "length infos = length descs"
    and e: "\<forall>i < length descs. \<exists>result.
              execute env (folder_example_query folder_path (fst (descs ! i))) = Inr result \<and>
              column_name (infos ! i) = fst (descs ! i) \<and>
              data_type (infos ! i) = (case snd (descs ! i) of Some t \<Rightarrow> t | None \<Rightarrow> ''unknown'') \<and>
              example_value (infos ! i) =
                (case example_of (rows result) of Null \<Rightarrow> ''NULL'' | c \<Rightarrow> str_cell c)"
    by blast
  have "total (pagination r') = int (length descs)"
    and "columns r' = py_slice infos ((page_q - 1) * page_size_q)
                       ((page_q - 1) * page_size_q + page_size_q)"
    using columns_page_parts[of infos page_q page_size_q] p(3) unfolding r by simp_all
  with p e
  show "\<exists>probe descs infos.
         execute env (''SELECT * FROM '' @ sq @ parquet_pattern folder_path @ sq @ '' LIMIT 1'')
           = Inr probe \<and>
         description probe = Some descs \<and> length infos = length descs \<and>
         total (pagination r') = int (length descs) \<and>
         columns r' = py_slice infos ((page_q - 1) * page_size_q)
                        ((page_q - 1) * page_size_q + page_size_q) \<and>
         (\<forall>i < length descs. \<exists>result.
            execute env (folder_example_query folder_path (fst (descs ! i))) = Inr result \<and>
            column_name (infos ! i) = fst (descs ! i) \<and>
            data_type (infos ! i) = (case snd (descs ! i) of Some t \<Rightarrow> t | None \<Rightarrow> ''unknown'') \<and>
            example_value (infos ! i) =
              (case example_of (rows result) of Null \<Rightarrow> ''NULL'' | c \<Rightarrow> str_cell c))"
    by blast
qed

theorem schema_example_values_witness:
  "get_column_info sample_env [''/'', ''data'', ''a.csv''] 2 1 =
     Inr (SchemaPage [\<lparr>column_name = ''name'', data_type = ''VARCHAR'', example_value = ''x''\<rparr>] 1
           \<lparr>page = 2, page_size = 1, total = 2, has_next = False\<rparr>) \<and>
   (\<exists>query probe descs infos.
       probe_query [''/'', ''data'', ''a.csv''] = Inr query \<and> execute sample_env query = Inr probe \<and>
       description probe = Some descs \<and> length infos = length descs \<and>
       int (length descs) = 2 \<and>
       [\<lparr>column_name = ''name'', data_type = ''VARCHAR'', example_value = ''x''\<rparr>] =
         py_slice infos ((2 - 1) * 1) ((2 - 1) * 1 + 1) \<and>
       (\<forall>i < length descs. \<exists>result.
          execute sample_env (file_example_query query (fst (descs ! i))) = Inr result \<and>
          column_name (infos ! i) = fst (descs ! i) \<and>
          data_type (infos ! i) = (case snd (descs ! i) of Some t \<Rightarrow> t | None \<Rightarrow> ''unknown'') \<and>
          example_value (infos ! i) =
            (case example_of (rows result) of Null \<Rightarrow> ''NULL'' | c \<Rightarrow> str_cell c)))"
  using schema_example_values[where env = sample_env and file_path = "[''/'', ''data'', ''a.csv'']"
          and page_q = 2 and page_size_q = 1
          and r = "SchemaPage [\<lparr>column_name = ''name'', data_type = ''VARCHAR'', example_value = ''x''\<rparr>] 1
           \<lparr>page = 2, page_size = 1, total = 2, has_next = False\<rparr>", THEN conjunct1]
    sample_get_column_info
  by simp

text \<open>
  C8 as claimed asks for the first value of the column that is not null. For a column
  that starts with a null and holds 5 in its second row the handler answers
  \<^verbatim>\<open>"NULL"\<close>.
\<close>

lemma suffix_t_parquet: "suffix_of [''/'', ''data'', ''t.parquet''] = ''.parquet''"
  by (simp add: suffix_of_def name_of_def is_anchor_def)

lemma null_first_columns:
  "describe_columns null_first_env
     (''SELECT * FROM '' @ parquet_source [''/'', ''data'', ''t.parquet''] @ '' LIMIT 1'')
     (file_example_query (''SELECT * FROM '' @ parquet_source [''/'', ''data'', ''t.parquet''] @ '' LIMIT 1'')) =
   Inr [\<lparr>column_name = ''x'', data_type = ''INTEGER'', example_value = ''NULL''\<rparr>]"
  by (simp add: describe_columns_def column_descriptor_def null_first_env_def
        null_first_execute_def null_first_column_def file_example_query_def)

theorem example_value_first_row_null_counterexample:
  "get_column_info null_first_env [''/'', ''data'', ''t.parquet''] 1 5 =
     Inr (SchemaPage [\<lparr>column_name = ''x'', data_type = ''INTEGER'', example_value = ''NULL''\<rparr>] 1
           \<lparr>page = 1, page_size = 5, total = 1, has_next = False\<rparr>) \<and>
   spec_example_value null_first_column = ''5''"
proof -
  have pq: "probe_query [''/'', ''data'', ''t.parquet''] =
              Inr (''SELECT * FROM '' @ parquet_source [''/'', ''data'', ''t.parquet''] @ '' LIMIT 1'')"
    by (simp add: probe_query_def suffix_t_parquet)
  have 1: "get_column_info null_first_env [''/'', ''data'', ''t.parquet''] 1 5 =
     Inr (SchemaPage [\<lparr>column_name = ''x'', data_type = ''INTEGER'', example_value = ''NULL''\<rparr>] 1
           \<lparr>page = 1, page_size = 5, total = 1, has_next = False\<rparr>)"
    unfolding get_column_info_def get_column_info_try_def pq sum.case null_first_columns
    by (simp add: columns_page_def py_slice_def slice_index_def Let_def)
  have 2: "spec_example_value null_first_column = ''5''"
    by (simp add: spec_example_value_def null_first_column_def str_int_def str_nat.simps
          digit_char_def)
  from 1 2 show ?thesis by (rule conjI)
qed

end
